theory Spec2Isabelle
  imports Main
begin

section \<open>Strings of the Go standard library\<close>

text \<open>
  A Go \<open>string\<close> is a sequence of bytes; it is modelled as a \<^typ>\<open>string\<close>
  (a list of 8-bit characters). The program calls \<open>strings.Split\<close> and
  \<open>strings.SplitN\<close> with one-byte separators only, so both take the separator as
  a character.
\<close>

text \<open>
  \<open>strings.Split(s, sep)\<close>: the substrings between the separators, in order. The result
  is never empty: a string without separator gives the one-element list of itself.
\<close>

primrec strings_Split :: "string \<Rightarrow> char \<Rightarrow> string list" where
  "strings_Split [] sep = [[]]"
| "strings_Split (c # cs) sep =
     (if c = sep then [] # strings_Split cs sep
      else (case strings_Split cs sep of
              [] \<Rightarrow> [[c]]
            | seg # segs \<Rightarrow> (c # seg) # segs))"

text \<open>
  \<open>strings.SplitN(s, sep, 2)\<close>: at most two substrings, cut at the first separator; the
  second one is the unsplit remainder.
\<close>

definition strings_SplitN2 :: "string \<Rightarrow> char \<Rightarrow> string list" where
  "strings_SplitN2 s sep =
     (if sep \<in> set s
      then [takeWhile (\<lambda>c. c \<noteq> sep) s, drop 1 (dropWhile (\<lambda>c. c \<noteq> sep) s)]
      else [s])"

text \<open>
  \<open>strings.TrimSpace\<close> removes the leading and trailing white space runes, as
  \<open>unicode.IsSpace\<close> defines them: the six ASCII ones, and in UTF-8 the two-byte
  U+0085 and U+00A0 and the three-byte U+1680, U+2000 to U+200A, U+2028, U+2029, U+202F,
  U+205F and U+3000. A byte that starts no valid encoding decodes to U+FFFD, which is
  not white space, so trimming is a match of these byte sequences at both ends.
\<close>

definition asciiSpace :: "char \<Rightarrow> bool" where
  "asciiSpace c = (c \<in> set [CHR 0x09, CHR 0x0A, CHR 0x0B, CHR 0x0C, CHR 0x0D, CHR 0x20])"

definition space2 :: "char \<Rightarrow> char \<Rightarrow> bool" where
  "space2 a b = (a = CHR 0xC2 \<and> (b = CHR 0x85 \<or> b = CHR 0xA0))"

definition space3 :: "char \<Rightarrow> char \<Rightarrow> char \<Rightarrow> bool" where
  "space3 a b c =
     ((a = CHR 0xE1 \<and> b = CHR 0x9A \<and> c = CHR 0x80) \<or>
      (a = CHR 0xE2 \<and> b = CHR 0x80 \<and>
         (c \<in> set [CHR 0x80, CHR 0x81, CHR 0x82, CHR 0x83, CHR 0x84, CHR 0x85, CHR 0x86,
                    CHR 0x87, CHR 0x88, CHR 0x89, CHR 0x8A, CHR 0xA8, CHR 0xA9, CHR 0xAF])) \<or>
      (a = CHR 0xE2 \<and> b = CHR 0x81 \<and> c = CHR 0x9F) \<or>
      (a = CHR 0xE3 \<and> b = CHR 0x80 \<and> c = CHR 0x80))"

text \<open>
  The scan from one end. \<open>rv\<close> tells that the bytes come in reverse (the scan from
  the right end), so that a multi-byte rune is met last byte first.
\<close>

fun skipSpace :: "bool \<Rightarrow> string \<Rightarrow> string" where
  "skipSpace rv (a # b # c # s) =
     (if asciiSpace a then skipSpace rv (b # c # s)
      else if (if rv then space2 b a else space2 a b) then skipSpace rv (c # s)
      else if (if rv then space3 c b a else space3 a b c) then skipSpace rv s
      else a # b # c # s)"
| "skipSpace rv [a, b] =
     (if asciiSpace a then skipSpace rv [b]
      else if (if rv then space2 b a else space2 a b) then []
      else [a, b])"
| "skipSpace rv [a] = (if asciiSpace a then [] else [a])"
| "skipSpace rv [] = []"

definition strings_TrimSpace :: "string \<Rightarrow> string" where
  "strings_TrimSpace s = rev (skipSpace True (rev (skipSpace False s)))"

text \<open>Decimal digits and the number a string of digits denotes.\<close>

definition isDigit :: "char \<Rightarrow> bool" where
  "isDigit c = (c \<in> set ''0123456789'')"

definition digitVal :: "char \<Rightarrow> nat" where
  "digitVal c = of_char c - 48"

definition digitsVal :: "string \<Rightarrow> nat" where
  "digitsVal ds = foldl (\<lambda>n c. 10 * n + digitVal c) 0 ds"

text \<open>
  \<open>strconv.ParseInt(s, 10, 64)\<close>, as far as a non-negative result goes: an optional
  sign and at least one digit, nothing else, and a value that fits 63 bits. The result
  is \<open>None\<close> for a syntax error, a range error or a negative value.
\<close>

definition parseContentLength :: "string \<Rightarrow> nat option" where
  "parseContentLength cl =
     (let negative = (case cl of [] \<Rightarrow> False | c # cs \<Rightarrow> c = CHR ''-'');
          digits = (case cl of
                      [] \<Rightarrow> []
                    | c # cs \<Rightarrow> if c = CHR ''+'' \<or> c = CHR ''-'' then cs else cl)
      in if digits = [] \<or> \<not> list_all isDigit digits then None
         else if negative then (if digitsVal digits = 0 then Some 0 else None)
         else if digitsVal digits < 2 ^ 63 then Some (digitsVal digits)
         else None)"

section \<open>Header Codec: \<open>parseHeaders\<close>\<close>

text \<open>
  \<open>sql.NullString\<close> is a struct of a string and a validity flag; a scanned SQL NULL
  has \<open>Valid = false\<close>.
\<close>

record NullString =
  String :: string
  Valid :: bool

text \<open>
  The loop over the \<open>;\<close>-separated pairs, with the map built so far. \<open>len(kv) == 2\<close>
  holds exactly when the pair has a \<open>=\<close>.
\<close>

fun parsePairs :: "string list \<Rightarrow> (string \<rightharpoonup> string) \<Rightarrow> (string \<rightharpoonup> string)" where
  "parsePairs [] headers = headers"
| "parsePairs (p # pairs) headers =
     (let pair = strings_TrimSpace p in
      if pair = [] then parsePairs pairs headers
      else
        (case strings_SplitN2 pair CHR ''='' of
           [k, v] \<Rightarrow> parsePairs pairs (headers(strings_TrimSpace k \<mapsto> strings_TrimSpace v))
         | _ \<Rightarrow> parsePairs pairs headers))"

text \<open>The codec of the body-aware server: the stored column may be NULL.\<close>

definition parseHeaders :: "NullString \<Rightarrow> (string \<rightharpoonup> string)" where
  "parseHeaders headerStr =
     (if \<not> Valid headerStr \<or> String headerStr = [] then Map.empty
      else parsePairs (strings_Split (String headerStr) CHR '';'') Map.empty)"

text \<open>The codec of \<open>src/main.go\<close>, on a plain string.\<close>

definition parseHeaders_main :: "string \<Rightarrow> (string \<rightharpoonup> string)" where
  "parseHeaders_main headerStr =
     (if headerStr = [] then Map.empty
      else parsePairs (strings_Split headerStr CHR '';'') Map.empty)"

text \<open>
  The decoder as the specification words it: split on \<open>;\<close>, trim each segment, skip
  the empty ones, keep the segments that have a \<open>=\<close>, cut each at its first \<open>=\<close>,
  trim key and value, and let a later key overwrite an earlier one.
\<close>

definition decode_segment :: "string \<Rightarrow> string \<times> string" where
  "decode_segment seg =
     (strings_TrimSpace (takeWhile (\<lambda>c. c \<noteq> CHR ''='') seg),
      strings_TrimSpace (drop 1 (dropWhile (\<lambda>c. c \<noteq> CHR ''='') seg)))"

definition decode_entries :: "string list \<Rightarrow> (string \<times> string) list" where
  "decode_entries segs =
     map decode_segment
       (filter (\<lambda>seg. CHR ''='' \<in> set seg)
          (filter (\<lambda>seg. seg \<noteq> []) (map strings_TrimSpace segs)))"

definition decode_spec :: "string \<Rightarrow> (string \<rightharpoonup> string)" where
  "decode_spec serialized = map_of (rev (decode_entries (strings_Split serialized CHR '';'')))"

section \<open>HTTP headers and the response writer\<close>

text \<open>
  \<open>http.Header\<close> is a \<open>map[string][]string\<close>. \<open>Set\<close> and \<open>Get\<close> address it by
  the canonical form of the key (\<open>textproto.CanonicalMIMEHeaderKey\<close>): when every byte
  of the key is a valid header field byte, the first letter and each letter after a
  hyphen are made upper case and all other letters lower case; a key with any other byte
  is left as it is.
\<close>

type_synonym Header = "string \<rightharpoonup> string list"

definition lowerLetters :: string where
  "lowerLetters = ''abcdefghijklmnopqrstuvwxyz''"

definition upperLetters :: string where
  "upperLetters = ''ABCDEFGHIJKLMNOPQRSTUVWXYZ''"

definition toUpper :: "char \<Rightarrow> char" where
  "toUpper c = (case map_of (zip lowerLetters upperLetters) c of Some u \<Rightarrow> u | None \<Rightarrow> c)"

definition toLower :: "char \<Rightarrow> char" where
  "toLower c = (case map_of (zip upperLetters lowerLetters) c of Some l \<Rightarrow> l | None \<Rightarrow> c)"

definition validHeaderFieldByte :: "char \<Rightarrow> bool" where
  "validHeaderFieldByte c =
     (c \<in> set lowerLetters \<or> c \<in> set upperLetters \<or> c \<in> set ''0123456789'' \<or>
      c \<in> set [CHR ''!'', CHR ''#'', CHR ''$'', CHR ''%'', CHR ''&'', CHR 0x27, CHR ''*'',
                 CHR ''+'', CHR ''-'', CHR ''.'', CHR ''^'', CHR ''_'', CHR 0x60, CHR ''|'',
                 CHR ''~''])"

fun canonicalLetters :: "bool \<Rightarrow> string \<Rightarrow> string" where
  "canonicalLetters upper [] = []"
| "canonicalLetters upper (c # cs) =
     (let c' = (if upper then toUpper c else toLower c)
      in c' # canonicalLetters (c' = CHR ''-'') cs)"

definition CanonicalMIMEHeaderKey :: "string \<Rightarrow> string" where
  "CanonicalMIMEHeaderKey s =
     (if list_all validHeaderFieldByte s then canonicalLetters True s else s)"

definition Header_Set :: "Header \<Rightarrow> string \<Rightarrow> string \<Rightarrow> Header" where
  "Header_Set h key v = h(CanonicalMIMEHeaderKey key \<mapsto> [v])"

definition Header_Get :: "Header \<Rightarrow> string \<Rightarrow> string" where
  "Header_Get h key =
     (case h (CanonicalMIMEHeaderKey key) of
        None \<Rightarrow> []
      | Some [] \<Rightarrow> []
      | Some (v # vs) \<Rightarrow> v)"

text \<open>
  The direct lookup and the removal that \<open>net/http\<close> itself uses on a header map.
\<close>

definition header_get :: "Header \<Rightarrow> string \<Rightarrow> string" where
  "header_get h key =
     (case h key of
        None \<Rightarrow> []
      | Some [] \<Rightarrow> []
      | Some (v # vs) \<Rightarrow> v)"

definition Header_Del :: "Header \<Rightarrow> string \<Rightarrow> Header" where
  "Header_Del h key = h(CanonicalMIMEHeaderKey key := None)"

text \<open>
  The \<open>http.ResponseWriter\<close> of the \<open>net/http\<close> server (its type \<open>response\<close>), as
  far as the handler's calls decide what the client gets:
  \<^item> \<open>rw_header\<close>: the header map \<open>w.Header()\<close>;
  \<^item> \<open>rw_status\<close>: the status of the response, once a \<open>WriteHeader\<close> has fixed it
    (\<open>wroteHeader\<close> and \<open>status\<close>);
  \<^item> \<open>rw_body\<close>: the body bytes sent;
  \<^item> \<open>rw_interim\<close>: the informational (1xx) responses sent before the final one;
  \<^item> \<open>rw_contentLength\<close>: the length the headers declared when the status was fixed
    (\<open>None\<close> for Go's \<open>-1\<close>), and \<open>rw_written\<close>: the bytes handed to \<open>Write\<close> so far;
  \<^item> \<open>rw_head\<close>: the request is a \<open>HEAD\<close> request;
  \<^item> \<open>rw_panic\<close>: the handler has panicked with \<open>invalid WriteHeader code\<close> for this
    code. A panic ends the handler, so every later call leaves the writer as it is; the
    server then closes the connection without a response.
\<close>

record ResponseWriter =
  rw_header :: Header
  rw_status :: "int option"
  rw_body :: string
  rw_interim :: "int list"
  rw_contentLength :: "nat option"
  rw_written :: nat
  rw_head :: bool
  rw_panic :: "int option"

text \<open>The writer of a request that is not a \<open>HEAD\<close> request, before any call.\<close>

definition newResponseWriter :: ResponseWriter where
  "newResponseWriter =
     \<lparr>rw_header = Map.empty, rw_status = None, rw_body = [], rw_interim = [],
      rw_contentLength = None, rw_written = 0, rw_head = False, rw_panic = None\<rparr>"

text \<open>The writer the server hands to the handler of a request with the given method.\<close>

definition responseWriterFor :: "string \<Rightarrow> ResponseWriter" where
  "responseWriterFor meth = newResponseWriter\<lparr>rw_head := (meth = ''HEAD'')\<rparr>"

text \<open>
  \<open>WriteHeader\<close>: a call after the status is fixed does nothing; a code outside 100 to
  999 panics (\<open>checkWriteHeaderCode\<close>); a 1xx code other than 101 is sent as an
  informational response and fixes nothing; any other code becomes the status, and the
  \<open>Content-Length\<close> the headers hold is taken as the declared length when it parses,
  and removed when it does not.
\<close>

definition WriteHeader :: "ResponseWriter \<Rightarrow> int \<Rightarrow> ResponseWriter" where
  "WriteHeader w code =
     (if rw_panic w \<noteq> None \<or> rw_status w \<noteq> None then w
      else if code < 100 \<or> 999 < code then w\<lparr>rw_panic := Some code\<rparr>
      else if code \<le> 199 \<and> code \<noteq> 101 then w\<lparr>rw_interim := rw_interim w @ [code]\<rparr>
      else
        (let cl = header_get (rw_header w) ''Content-Length''
         in if cl = [] then w\<lparr>rw_status := Some code\<rparr>
            else (case parseContentLength cl of
                    Some v \<Rightarrow> w\<lparr>rw_status := Some code, rw_contentLength := Some v\<rparr>
                  | None \<Rightarrow>
                      w\<lparr>rw_status := Some code,
                        rw_header := Header_Del (rw_header w) ''Content-Length''\<rparr>)))"

definition bodyAllowedForStatus :: "int \<Rightarrow> bool" where
  "bodyAllowedForStatus status =
     (if 100 \<le> status \<and> status \<le> 199 then False
      else if status = 204 then False
      else if status = 304 then False
      else True)"

text \<open>
  \<open>Write\<close>: without a status yet it first calls \<open>WriteHeader(200)\<close>; no bytes, or a
  status that allows no body, and nothing is sent. The bytes are counted, and when the
  count passes the declared length nothing is sent either (\<open>ErrContentLength\<close>); the
  bytes of the answer to a \<open>HEAD\<close> request are dropped. \<open>writeResponse\<close> ignores the
  errors \<open>Write\<close> returns. (A writer without status after \<open>WriteHeader(200)\<close> does not
  occur.)
\<close>

definition Write :: "ResponseWriter \<Rightarrow> string \<Rightarrow> ResponseWriter" where
  "Write w bs =
     (if rw_panic w \<noteq> None then w
      else
        (let w1 = (if rw_status w = None then WriteHeader w 200 else w)
         in if bs = [] then w1
            else
              (case rw_status w1 of
                 None \<Rightarrow> w1
               | Some status \<Rightarrow>
                   if \<not> bodyAllowedForStatus status then w1
                   else
                     (let w2 = w1\<lparr>rw_written := rw_written w1 + length bs\<rparr>
                      in if (case rw_contentLength w2 of
                               None \<Rightarrow> False
                             | Some declared \<Rightarrow> declared < rw_written w2) then w2
                         else if rw_head w2 then w2
                         else w2\<lparr>rw_body := rw_body w2 @ bs\<rparr>))))"

definition setHeader :: "ResponseWriter \<Rightarrow> string \<Rightarrow> string \<Rightarrow> ResponseWriter" where
  "setHeader w key v = w\<lparr>rw_header := Header_Set (rw_header w) key v\<rparr>"

text \<open>\<open>http.Error\<close> and \<open>http.NotFound\<close>: a plain-text reply with the given code.\<close>

definition http_Error :: "ResponseWriter \<Rightarrow> string \<Rightarrow> int \<Rightarrow> ResponseWriter" where
  "http_Error w msg code =
     Write (WriteHeader
              (setHeader (setHeader w ''Content-Type'' ''text/plain; charset=utf-8'')
                 ''X-Content-Type-Options'' ''nosniff'')
              code)
       (msg @ [CHR 0x0A])"

definition http_NotFound :: "ResponseWriter \<Rightarrow> ResponseWriter" where
  "http_NotFound w = http_Error w ''404 page not found'' 404"

section \<open>Response Materializer: \<open>writeResponse\<close>\<close>

record MockResponse =
  ResponseBody :: string
  ResponseStatusCode :: int
  Headers :: NullString

text \<open>
  The \<open>range\<close> loop over the decoded map sets one header per key. Go fixes no order for
  the iteration of a map, so the order the runtime takes is the parameter \<open>keys\<close>: an
  enumeration of the map's keys.
\<close>

fun applyHeaders :: "(string \<rightharpoonup> string) \<Rightarrow> string list \<Rightarrow> ResponseWriter \<Rightarrow> ResponseWriter" where
  "applyHeaders headers [] w = w"
| "applyHeaders headers (key # keys) w =
     (case headers key of
        Some v \<Rightarrow> applyHeaders headers keys (setHeader w key v)
      | None \<Rightarrow> applyHeaders headers keys w)"

definition writeResponse :: "string list \<Rightarrow> ResponseWriter \<Rightarrow> MockResponse \<Rightarrow> ResponseWriter" where
  "writeResponse keys w mockResp =
     (let headers = parseHeaders (Headers mockResp);
          w1 = applyHeaders headers keys w;
          w2 = (if Header_Get (rw_header w1) ''Content-Type'' = []
                then setHeader w1 ''Content-Type'' ''application/json'' else w1);
          statusCode = (if ResponseStatusCode mockResp = 0 then 200
                        else ResponseStatusCode mockResp);
          w3 = WriteHeader w2 statusCode
      in Write w3 (ResponseBody mockResp))"

text \<open>
  The value the decoded headers give the header \<open>name\<close>: that of the key applied last
  among the keys with this canonical name, and the empty string when there is none.
\<close>

definition headerKeys :: "string \<Rightarrow> string list \<Rightarrow> string list" where
  "headerKeys name keys = filter (\<lambda>k. CanonicalMIMEHeaderKey k = name) keys"

definition storedHeader :: "(string \<rightharpoonup> string) \<Rightarrow> string list \<Rightarrow> string \<Rightarrow> string" where
  "storedHeader headers keys name =
     (if headerKeys name keys = [] then []
      else (case headers (last (headerKeys name keys)) of None \<Rightarrow> [] | Some v \<Rightarrow> v))"

text \<open>The local \<open>statusCode\<close> of \<open>writeResponse\<close>.\<close>

definition statusCodeOf :: "MockResponse \<Rightarrow> int" where
  "statusCodeOf mockResp =
     (if ResponseStatusCode mockResp = 0 then 200 else ResponseStatusCode mockResp)"

text \<open>
  The body fits the length the stored headers declare: they declare none, or one that
  does not parse, or one that is not smaller than the body.
\<close>

definition bodyFits :: "(string \<rightharpoonup> string) \<Rightarrow> string list \<Rightarrow> string \<Rightarrow> bool" where
  "bodyFits headers keys body =
     (if storedHeader headers keys ''Content-Length'' = [] then True
      else (case parseContentLength (storedHeader headers keys ''Content-Length'') of
              None \<Rightarrow> True
            | Some declared \<Rightarrow> length body \<le> declared))"

section \<open>JSON validity: \<open>json.Unmarshal\<close> into an empty interface\<close>

text \<open>
  \<open>validateAndReturnJSON\<close> asks \<open>json.Unmarshal\<close> whether the body decodes.
  \<open>Unmarshal\<close> first runs \<open>checkValid\<close>, a byte-by-byte state machine over the JSON
  grammar (\<open>encoding/json/scanner.go\<close>), and then decodes the value; into an
  \<open>interface{}\<close> the only decoding error left is a number literal that
  \<open>strconv.ParseFloat\<close> cannot hold in a \<open>float64\<close>: the package documents that
  a JSON number is stored as a \<open>float64\<close> in an interface value, and that a number
  which overflows its target type makes \<open>Unmarshal\<close> return an
  \<open>UnmarshalTypeError\<close>.

  The scanner's \<open>step\<close> field is a function value; here it is a tag, and \<open>scan_step\<close>
  calls the state function the tag names. The stack \<open>parseState\<close> has its top at the
  head of the list.
\<close>

datatype scanOp =
  scanContinue | scanBeginLiteral | scanBeginObject | scanObjectKey | scanObjectValue
| scanEndObject | scanBeginArray | scanArrayValue | scanEndArray | scanSkipSpace
| scanEnd | scanError

datatype parseState = parseObjectKey | parseObjectValue | parseArrayValue

datatype stepTag =
  StBeginValueOrEmpty | StBeginValue | StBeginStringOrEmpty | StBeginString
| StEndValue | StEndTop | StInString | StInStringEsc | StInStringEscU | StInStringEscU1
| StInStringEscU12 | StInStringEscU123 | StNeg | St1 | St0 | StDot | StDot0 | StE | StESign
| StE0 | StT | StTr | StTru | StF | StFa | StFal | StFals | StN | StNu | StNul | StError

record scanner =
  sc_step :: stepTag
  sc_endTop :: bool
  sc_parseState :: "parseState list"
  sc_err :: bool

definition maxNestingDepth :: nat where
  "maxNestingDepth = 10000"

definition scanner_reset :: scanner where
  "scanner_reset = \<lparr>sc_step = StBeginValue, sc_endTop = False, sc_parseState = [], sc_err = False\<rparr>"

definition isSpace :: "char \<Rightarrow> bool" where
  "isSpace c = (c \<in> set [CHR 0x20, CHR 0x09, CHR 0x0D, CHR 0x0A])"

definition isDigit19 :: "char \<Rightarrow> bool" where
  "isDigit19 c = (c \<in> set ''123456789'')"

definition isHex :: "char \<Rightarrow> bool" where
  "isHex c = (c \<in> set ''0123456789abcdefABCDEF'')"

definition scan_error :: "scanner \<Rightarrow> scanOp \<times> scanner" where
  "scan_error s = (scanError, s\<lparr>sc_step := StError, sc_err := True\<rparr>)"

definition goto :: "scanner \<Rightarrow> stepTag \<Rightarrow> scanOp \<Rightarrow> scanOp \<times> scanner" where
  "goto s st opc = (opc, s\<lparr>sc_step := st\<rparr>)"

definition pushParseState :: "scanner \<Rightarrow> parseState \<Rightarrow> scanOp \<Rightarrow> scanOp \<times> scanner" where
  "pushParseState s newParseState successState =
     (let s' = s\<lparr>sc_parseState := newParseState # sc_parseState s\<rparr>
      in if length (sc_parseState s') \<le> maxNestingDepth then (successState, s')
         else scan_error s')"

definition popParseState :: "scanner \<Rightarrow> scanner" where
  "popParseState s =
     (let rest = tl (sc_parseState s)
      in if rest = [] then s\<lparr>sc_parseState := rest, sc_step := StEndTop, sc_endTop := True\<rparr>
         else s\<lparr>sc_parseState := rest, sc_step := StEndValue\<rparr>)"

definition stateEndTop :: "scanner \<Rightarrow> char \<Rightarrow> scanOp \<times> scanner" where
  "stateEndTop s c = (if \<not> isSpace c then (scanEnd, snd (scan_error s)) else (scanEnd, s))"

definition stateEndValue :: "scanner \<Rightarrow> char \<Rightarrow> scanOp \<times> scanner" where
  "stateEndValue s c =
     (case sc_parseState s of
        [] \<Rightarrow> stateEndTop (s\<lparr>sc_step := StEndTop, sc_endTop := True\<rparr>) c
      | ps # rest \<Rightarrow>
          if isSpace c then goto s StEndValue scanSkipSpace
          else (case ps of
                  parseObjectKey \<Rightarrow>
                    if c = CHR '':'' then
                      goto (s\<lparr>sc_parseState := parseObjectValue # rest\<rparr>) StBeginValue scanObjectKey
                    else scan_error s
                | parseObjectValue \<Rightarrow>
                    if c = CHR '','' then
                      goto (s\<lparr>sc_parseState := parseObjectKey # rest\<rparr>) StBeginString scanObjectValue
                    else if c = CHR ''}'' then (scanEndObject, popParseState s)
                    else scan_error s
                | parseArrayValue \<Rightarrow>
                    if c = CHR '','' then goto s StBeginValue scanArrayValue
                    else if c = CHR '']'' then (scanEndArray, popParseState s)
                    else scan_error s))"

definition stateBeginValue :: "scanner \<Rightarrow> char \<Rightarrow> scanOp \<times> scanner" where
  "stateBeginValue s c =
     (if isSpace c then (scanSkipSpace, s)
      else if c = CHR ''{'' then
        pushParseState (s\<lparr>sc_step := StBeginStringOrEmpty\<rparr>) parseObjectKey scanBeginObject
      else if c = CHR ''['' then
        pushParseState (s\<lparr>sc_step := StBeginValueOrEmpty\<rparr>) parseArrayValue scanBeginArray
      else if c = CHR 0x22 then goto s StInString scanBeginLiteral
      else if c = CHR ''-'' then goto s StNeg scanBeginLiteral
      else if c = CHR ''0'' then goto s St0 scanBeginLiteral
      else if c = CHR ''t'' then goto s StT scanBeginLiteral
      else if c = CHR ''f'' then goto s StF scanBeginLiteral
      else if c = CHR ''n'' then goto s StN scanBeginLiteral
      else if isDigit19 c then goto s St1 scanBeginLiteral
      else scan_error s)"

definition stateBeginValueOrEmpty :: "scanner \<Rightarrow> char \<Rightarrow> scanOp \<times> scanner" where
  "stateBeginValueOrEmpty s c =
     (if isSpace c then (scanSkipSpace, s)
      else if c = CHR '']'' then stateEndValue s c
      else stateBeginValue s c)"

definition stateBeginString :: "scanner \<Rightarrow> char \<Rightarrow> scanOp \<times> scanner" where
  "stateBeginString s c =
     (if isSpace c then (scanSkipSpace, s)
      else if c = CHR 0x22 then goto s StInString scanBeginLiteral
      else scan_error s)"

text \<open>
  On \<open>}\<close> the top of the stack is overwritten; the state is entered only after a push,
  so the stack is not empty there (an empty one would be an index panic in Go, an error
  here).
\<close>

definition stateBeginStringOrEmpty :: "scanner \<Rightarrow> char \<Rightarrow> scanOp \<times> scanner" where
  "stateBeginStringOrEmpty s c =
     (if isSpace c then (scanSkipSpace, s)
      else if c = CHR ''}'' then
        (case sc_parseState s of
           [] \<Rightarrow> scan_error s
         | ps # rest \<Rightarrow> stateEndValue (s\<lparr>sc_parseState := parseObjectValue # rest\<rparr>) c)
      else stateBeginString s c)"

definition stateInString :: "scanner \<Rightarrow> char \<Rightarrow> scanOp \<times> scanner" where
  "stateInString s c =
     (if c = CHR 0x22 then goto s StEndValue scanContinue
      else if c = CHR 0x5C then goto s StInStringEsc scanContinue
      else if (of_char c :: nat) < 0x20 then scan_error s
      else (scanContinue, s))"

definition stateInStringEsc :: "scanner \<Rightarrow> char \<Rightarrow> scanOp \<times> scanner" where
  "stateInStringEsc s c =
     (if c \<in> set [CHR ''b'', CHR ''f'', CHR ''n'', CHR ''r'', CHR ''t'', CHR 0x5C, CHR ''/'', CHR 0x22]
      then goto s StInString scanContinue
      else if c = CHR ''u'' then goto s StInStringEscU scanContinue
      else scan_error s)"

definition stateHex :: "stepTag \<Rightarrow> scanner \<Rightarrow> char \<Rightarrow> scanOp \<times> scanner" where
  "stateHex next s c = (if isHex c then goto s next scanContinue else scan_error s)"

definition stateNeg :: "scanner \<Rightarrow> char \<Rightarrow> scanOp \<times> scanner" where
  "stateNeg s c =
     (if c = CHR ''0'' then goto s St0 scanContinue
      else if isDigit19 c then goto s St1 scanContinue
      else scan_error s)"

definition state0 :: "scanner \<Rightarrow> char \<Rightarrow> scanOp \<times> scanner" where
  "state0 s c =
     (if c = CHR ''.'' then goto s StDot scanContinue
      else if c = CHR ''e'' \<or> c = CHR ''E'' then goto s StE scanContinue
      else stateEndValue s c)"

definition state1 :: "scanner \<Rightarrow> char \<Rightarrow> scanOp \<times> scanner" where
  "state1 s c = (if isDigit c then goto s St1 scanContinue else state0 s c)"

definition stateDot :: "scanner \<Rightarrow> char \<Rightarrow> scanOp \<times> scanner" where
  "stateDot s c = (if isDigit c then goto s StDot0 scanContinue else scan_error s)"

definition stateDot0 :: "scanner \<Rightarrow> char \<Rightarrow> scanOp \<times> scanner" where
  "stateDot0 s c =
     (if isDigit c then (scanContinue, s)
      else if c = CHR ''e'' \<or> c = CHR ''E'' then goto s StE scanContinue
      else stateEndValue s c)"

definition stateESign :: "scanner \<Rightarrow> char \<Rightarrow> scanOp \<times> scanner" where
  "stateESign s c = (if isDigit c then goto s StE0 scanContinue else scan_error s)"

definition stateE :: "scanner \<Rightarrow> char \<Rightarrow> scanOp \<times> scanner" where
  "stateE s c =
     (if c = CHR ''+'' \<or> c = CHR ''-'' then goto s StESign scanContinue else stateESign s c)"

definition stateE0 :: "scanner \<Rightarrow> char \<Rightarrow> scanOp \<times> scanner" where
  "stateE0 s c = (if isDigit c then (scanContinue, s) else stateEndValue s c)"

text \<open>The states inside \<open>true\<close>, \<open>false\<close> and \<open>null\<close>: one expected letter each.\<close>

definition stateLetter :: "char \<Rightarrow> stepTag \<Rightarrow> scanner \<Rightarrow> char \<Rightarrow> scanOp \<times> scanner" where
  "stateLetter expected next s c =
     (if c = expected then goto s next scanContinue else scan_error s)"

definition scan_step :: "scanner \<Rightarrow> char \<Rightarrow> scanOp \<times> scanner" where
  "scan_step s c =
     (case sc_step s of
        StBeginValueOrEmpty \<Rightarrow> stateBeginValueOrEmpty s c
      | StBeginValue \<Rightarrow> stateBeginValue s c
      | StBeginStringOrEmpty \<Rightarrow> stateBeginStringOrEmpty s c
      | StBeginString \<Rightarrow> stateBeginString s c
      | StEndValue \<Rightarrow> stateEndValue s c
      | StEndTop \<Rightarrow> stateEndTop s c
      | StInString \<Rightarrow> stateInString s c
      | StInStringEsc \<Rightarrow> stateInStringEsc s c
      | StInStringEscU \<Rightarrow> stateHex StInStringEscU1 s c
      | StInStringEscU1 \<Rightarrow> stateHex StInStringEscU12 s c
      | StInStringEscU12 \<Rightarrow> stateHex StInStringEscU123 s c
      | StInStringEscU123 \<Rightarrow> stateHex StInString s c
      | StNeg \<Rightarrow> stateNeg s c
      | St1 \<Rightarrow> state1 s c
      | St0 \<Rightarrow> state0 s c
      | StDot \<Rightarrow> stateDot s c
      | StDot0 \<Rightarrow> stateDot0 s c
      | StE \<Rightarrow> stateE s c
      | StESign \<Rightarrow> stateESign s c
      | StE0 \<Rightarrow> stateE0 s c
      | StT \<Rightarrow> stateLetter CHR ''r'' StTr s c
      | StTr \<Rightarrow> stateLetter CHR ''u'' StTru s c
      | StTru \<Rightarrow> stateLetter CHR ''e'' StEndValue s c
      | StF \<Rightarrow> stateLetter CHR ''a'' StFa s c
      | StFa \<Rightarrow> stateLetter CHR ''l'' StFal s c
      | StFal \<Rightarrow> stateLetter CHR ''s'' StFals s c
      | StFals \<Rightarrow> stateLetter CHR ''e'' StEndValue s c
      | StN \<Rightarrow> stateLetter CHR ''u'' StNu s c
      | StNu \<Rightarrow> stateLetter CHR ''l'' StNul s c
      | StNul \<Rightarrow> stateLetter CHR ''l'' StEndValue s c
      | StError \<Rightarrow> (scanError, s))"

text \<open>
  \<open>checkValid\<close>: the loop stops at the first \<open>scanError\<close> (the result \<open>None\<close>); at the
  end of the input \<open>eof\<close> feeds one space to close a pending number or literal.
\<close>

fun scanBytes :: "scanner \<Rightarrow> string \<Rightarrow> scanner option" where
  "scanBytes s [] = Some s"
| "scanBytes s (c # cs) =
     (case scan_step s c of (opc, s') \<Rightarrow> if opc = scanError then None else scanBytes s' cs)"

definition scanner_eof :: "scanner \<Rightarrow> scanOp" where
  "scanner_eof s =
     (if sc_err s then scanError
      else if sc_endTop s then scanEnd
      else if sc_endTop (snd (scan_step s CHR 0x20)) then scanEnd
      else scanError)"

definition checkValid :: "string \<Rightarrow> bool" where
  "checkValid data =
     (case scanBytes scanner_reset data of
        None \<Rightarrow> False
      | Some s \<Rightarrow> scanner_eof s \<noteq> scanError)"

text \<open>
  The number literals of the text, in order: the bytes scanned while the scanner is in
  one of its number states. The decoder hands each to \<open>strconv.ParseFloat\<close>.
\<close>

definition inNumber :: "scanner \<Rightarrow> bool" where
  "inNumber s = (sc_step s \<in> set [StNeg, St0, St1, StDot, StDot0, StE, StESign, StE0])"

fun numberLiterals :: "scanner \<Rightarrow> string \<Rightarrow> string \<Rightarrow> string list" where
  "numberLiterals s cur [] = (if cur = [] then [] else [cur])"
| "numberLiterals s cur (c # cs) =
     (let s' = snd (scan_step s c)
      in if inNumber s' then numberLiterals s' (cur @ [c]) cs
         else if cur = [] then numberLiterals s' [] cs
         else cur # numberLiterals s' [] cs)"

text \<open>
  \<open>ParseFloat(lit, 64)\<close> rounds the decimal value to the nearest \<open>float64\<close> and fails
  with \<open>ErrRange\<close> when the result is infinite: when the magnitude
  \<open>mantissa * 10 ^ exponent\<close> reaches \<open>2 ^ 1024 - 2 ^ 970\<close>, half a unit in the last
  place above the largest finite value. A value too small for a \<open>float64\<close> becomes
  zero without error.
\<close>

definition float64Limit :: nat where
  "float64Limit = 2 ^ 1024 - 2 ^ 970"

definition pow10 :: "nat \<Rightarrow> nat" where
  "pow10 n = 10 ^ n"

text \<open>The exponent part of a literal, after its digits and fraction: \<open>e\<close>, a sign, digits.\<close>

fun exponentOf :: "string \<Rightarrow> int" where
  "exponentOf (e # sign # ds) =
     (if sign = CHR ''-'' then - int (digitsVal ds)
      else if sign = CHR ''+'' then int (digitsVal ds)
      else int (digitsVal (sign # ds)))"
| "exponentOf _ = 0"

definition float64Overflow :: "string \<Rightarrow> bool" where
  "float64Overflow lit =
     (let unsigned = (case lit of [] \<Rightarrow> [] | c # cs \<Rightarrow> if c = CHR ''-'' then cs else lit);
          intDigits = takeWhile isDigit unsigned;
          afterInt = dropWhile isDigit unsigned;
          hasFrac = (case afterInt of [] \<Rightarrow> False | c # cs \<Rightarrow> c = CHR ''.'');
          fracDigits = (if hasFrac then takeWhile isDigit (drop 1 afterInt) else []);
          afterFrac = (if hasFrac then dropWhile isDigit (drop 1 afterInt) else afterInt);
          mantissa = digitsVal (intDigits @ fracDigits);
          exp10 = exponentOf afterFrac - int (length fracDigits)
      in if 0 \<le> exp10 then float64Limit \<le> mantissa * pow10 (nat exp10)
         else float64Limit * pow10 (nat (- exp10)) \<le> mantissa)"

text \<open>\<open>json.Unmarshal(data, &temp)\<close> with \<open>temp\<close> an \<open>interface{}\<close> returns no error.\<close>

definition json_Unmarshal_ok :: "string \<Rightarrow> bool" where
  "json_Unmarshal_ok data =
     (checkValid data \<and>
      list_all (\<lambda>lit. \<not> float64Overflow lit) (numberLiterals scanner_reset [] data))"

section \<open>Request Normalizer\<close>

text \<open>
  A request body is an \<open>io.Reader\<close>: the bytes it still has to deliver, and the error
  it ends with, if any, in place of \<open>io.EOF\<close>. \<open>io.ReadAll\<close> drains the reader and
  returns the bytes together with that error.
\<close>

record reader =
  pending :: string
  failure :: "string option"

record URL =
  Path :: string
  RawQuery :: string

record Request =
  URL :: URL
  Method :: string
  Body :: "reader option"

definition io_ReadAll :: "reader \<Rightarrow> reader \<times> string \<times> string option" where
  "io_ReadAll rd = (rd\<lparr>pending := []\<rparr>, pending rd, failure rd)"

definition bytes_NewBuffer :: "string \<Rightarrow> reader" where
  "bytes_NewBuffer bs = \<lparr>pending = bs, failure = None\<rparr>"

text \<open>
  \<open>readRequestBody\<close> mutates the request (it replaces \<open>r.Body\<close>), so the model returns
  the request together with the result. On a read error the old, drained reader stays.
\<close>

definition readRequestBody :: "Request \<Rightarrow> Request \<times> (string + string)" where
  "readRequestBody r =
     (case Body r of
        None \<Rightarrow> (r, Inr [])
      | Some rd \<Rightarrow>
          (case io_ReadAll rd of
             (rd', bodyBytes, Some e) \<Rightarrow>
               (r\<lparr>Body := Some rd'\<rparr>, Inl (''error reading request body: '' @ e))
           | (rd', bodyBytes, None) \<Rightarrow>
               (r\<lparr>Body := Some (bytes_NewBuffer bodyBytes)\<rparr>, Inr bodyBytes)))"

text \<open>The second component is the returned \<open>error\<close>; every path returns \<open>nil\<close>.\<close>

definition validateAndReturnJSON :: "string \<Rightarrow> string \<times> string option" where
  "validateAndReturnJSON requestBody =
     (if requestBody = [] then ([], None)
      else if \<not> json_Unmarshal_ok requestBody then ([], None)
      else (requestBody, None))"

definition buildFullPath :: "Request \<Rightarrow> string" where
  "buildFullPath r =
     (let urlPath = Path (URL r)
      in if RawQuery (URL r) \<noteq> [] then urlPath @ ''?'' @ RawQuery (URL r) else urlPath)"

section \<open>Response Resolver: \<open>getMockResponse\<close>\<close>

text \<open>
  The two SQL texts of \<open>getMockResponse\<close>; both select \<open>response_body, headers,
  response_status_code\<close> from \<open>return.mock_responses\<close>:
  \<^item> \<open>SelectNullBody\<close>: \<open>WHERE path = $1 AND method = $2 AND request_body IS NULL\<close>;
  \<^item> \<open>SelectBodyHash\<close>: \<open>WHERE path = $1 AND method = $2 AND
    md5(request_body::jsonb::text) = md5($3::jsonb::text)\<close>.
\<close>

datatype query = SelectNullBody | SelectBodyHash

datatype db_error = ErrNoRows | DeadlineExceeded | DriverError string

text \<open>
  The connection pool, as the resolver sees it: \<open>db.QueryRowContext(ctx, query, args...)\<close>
  followed by \<open>row.Scan\<close> gives a record or an error. The context's five seconds are the
  store's to keep: a query that takes longer comes back as an error.
\<close>

type_synonym database = "query \<Rightarrow> string list \<Rightarrow> db_error + MockResponse"

text \<open>
  Besides its result, the resolver's model returns the queries it has sent to the pool, in
  order, so that the number of round trips can be stated.
\<close>

definition getMockResponse ::
  "database \<Rightarrow> string \<Rightarrow> string \<Rightarrow> string \<Rightarrow> (query \<times> string list) list \<times> (db_error + MockResponse)" where
  "getMockResponse db path meth requestBodyJSON =
     (let (query, args) =
            (if requestBodyJSON = [] then (SelectNullBody, [path, meth])
             else (SelectBodyHash, [path, meth, requestBodyJSON]))
      in ([(query, args)], db query args))"

text \<open>The query and the arguments the resolver takes for a lookup key.\<close>

definition lookupQuery :: "string \<Rightarrow> string \<Rightarrow> string \<Rightarrow> query \<times> string list" where
  "lookupQuery p m b =
     (if b = [] then (SelectNullBody, [p, m]) else (SelectBodyHash, [p, m, b]))"

section \<open>The handler\<close>

definition error_text :: "db_error \<Rightarrow> string" where
  "error_text e =
     (case e of
        ErrNoRows \<Rightarrow> ''sql: no rows in result set''
      | DeadlineExceeded \<Rightarrow> ''context deadline exceeded''
      | DriverError msg \<Rightarrow> msg)"

text \<open>
  What one call of \<open>proxyHandler\<close> leaves behind: the response written, the queries
  sent to the store, and the lines logged on the server.
\<close>

record outcome =
  response :: ResponseWriter
  issued :: "(query \<times> string list) list"
  logged :: "string list"

definition proxyHandler :: "database \<Rightarrow> string list \<Rightarrow> ResponseWriter \<Rightarrow> Request \<Rightarrow> outcome" where
  "proxyHandler db keys w r =
     (let urlPath = buildFullPath r;
          meth = Method r
      in case readRequestBody r of
           (r', Inl e) \<Rightarrow>
             \<lparr>response = http_Error w ''Error reading request body'' 400,
              issued = [],
              logged = [''Error reading request body: '' @ e]\<rparr>
         | (r', Inr requestBody) \<Rightarrow>
             (case validateAndReturnJSON requestBody of
                (validatedJSON, Some e) \<Rightarrow>
                  \<lparr>response = http_Error w ''Invalid JSON'' 400,
                   issued = [],
                   logged = [''Invalid JSON: '' @ e]\<rparr>
              | (validatedJSON, None) \<Rightarrow>
                  (case getMockResponse db urlPath meth validatedJSON of
                     (qs, Inl err) \<Rightarrow>
                       if err = ErrNoRows
                       then \<lparr>response = http_NotFound w, issued = qs, logged = []\<rparr>
                       else \<lparr>response = http_Error w ''Internal server error'' 500,
                             issued = qs,
                             logged = [''Database error: '' @ error_text err]\<rparr>
                   | (qs, Inr mockResp) \<Rightarrow>
                       \<lparr>response = writeResponse keys w mockResp, issued = qs, logged = []\<rparr>)))"

section \<open>The persistence collaborator\<close>

text \<open>
  The table \<open>mock_responses\<close> and the meaning of the two \<open>WHERE\<close> clauses over it. The
  columns are those of \<open>create_db_script.sql\<close>; \<open>request_body\<close>, \<open>headers\<close> and
  \<open>response_status_code\<close> may be NULL. PostgreSQL's canonical text of a \<open>jsonb\<close> value
  and its \<open>md5\<close> are functions of the store. A comparison with NULL is not true in SQL,
  so a row with a NULL \<open>request_body\<close> fails the hash clause. \<open>fault\<close> is a failure
  of the store itself at this query (a timeout, a lost connection, a rejected cast).
\<close>

record row =
  row_path :: string
  row_method :: string
  request_body :: "string option"
  response_body :: string
  response_status_code :: "int option"
  headers :: "string option"

record store =
  rows :: "row list"
  jsonb_text :: "string \<Rightarrow> string"
  md5 :: "string \<Rightarrow> string"
  fault :: "db_error option"

fun selects :: "store \<Rightarrow> query \<Rightarrow> string list \<Rightarrow> row \<Rightarrow> bool" where
  "selects st SelectNullBody [p, m] r =
     (row_path r = p \<and> row_method r = m \<and> request_body r = None)"
| "selects st SelectBodyHash [p, m, b] r =
     (row_path r = p \<and> row_method r = m \<and>
      (case request_body r of
         None \<Rightarrow> False
       | Some rb \<Rightarrow> md5 st (jsonb_text st rb) = md5 st (jsonb_text st b)))"
| "selects st q args r = False"

text \<open>
  \<open>row.Scan\<close> into \<open>string\<close>, \<open>sql.NullString\<close> and \<open>int\<close>: a NULL status code cannot
  be stored in an \<open>int\<close> and is an error; a NULL \<open>headers\<close> is the invalid
  \<open>NullString\<close>.
\<close>

definition scanNullError :: string where
  "scanNullError =
     ''sql: Scan error on column index 2, name \"response_status_code\": '' @
     ''converting NULL to int is unsupported''"

definition Scan :: "row \<Rightarrow> db_error + MockResponse" where
  "Scan r =
     (case response_status_code r of
        None \<Rightarrow> Inl (DriverError scanNullError)
      | Some code \<Rightarrow>
          Inr \<lparr>ResponseBody = response_body r,
               ResponseStatusCode = code,
               Headers = (case headers r of
                            None \<Rightarrow> \<lparr>String = [], Valid = False\<rparr>
                          | Some h \<Rightarrow> \<lparr>String = h, Valid = True\<rparr>)\<rparr>)"

text \<open>\<open>QueryRowContext\<close> and \<open>Scan\<close>: the first selected row, or \<open>sql.ErrNoRows\<close>.\<close>

definition QueryRow :: "store \<Rightarrow> database" where
  "QueryRow st q args =
     (case fault st of
        Some e \<Rightarrow> Inl e
      | None \<Rightarrow>
          (case filter (selects st q args) (rows st) of
             [] \<Rightarrow> Inl ErrNoRows
           | r # rs \<Rightarrow> Scan r))"

section \<open>Connection Lifecycle Manager: \<open>initDB\<close>\<close>

text \<open>
  The package variables \<open>db\<close> and \<open>once\<close>, as the fields \<open>var_db\<close> and
  \<open>var_once\<close>. \<open>db\<close> is \<open>nil\<close> or a pool with its
  settings (durations in seconds; the initial ones are those of \<open>database/sql\<close>);
  \<open>once\<close> is whether \<open>once.Do\<close> has run its function. What \<open>sql.Open\<close> and \<open>db.Ping\<close>
  return is the environment's.
\<close>

record pool =
  MaxOpenConns :: nat
  MaxIdleConns :: nat
  ConnMaxLifetime :: nat
  ConnMaxIdleTime :: nat
  closed :: bool

record globals =
  var_db :: "pool option"
  var_once :: bool

record environment =
  open_error :: "string option"
  ping_error :: "string option"

definition sql_Open :: pool where
  "sql_Open = \<lparr>MaxOpenConns = 0, MaxIdleConns = 2, ConnMaxLifetime = 0, ConnMaxIdleTime = 0,
               closed = False\<rparr>"

text \<open>
  \<open>err\<close> is a local variable of each call, \<open>nil\<close> at its start; only the function
  passed to \<open>once.Do\<close> assigns it, and \<open>once.Do\<close> runs that function in the first
  call only. The line printed after a successful initialization is left out.
\<close>

definition initDB :: "environment \<Rightarrow> globals \<Rightarrow> globals \<times> string option" where
  "initDB env g =
     (if var_once g then (g, None)
      else
        (case open_error env of
           Some e \<Rightarrow> (g\<lparr>var_db := None, var_once := True\<rparr>, Some e)
         | None \<Rightarrow>
             (case ping_error env of
                Some e \<Rightarrow> (g\<lparr>var_db := Some (sql_Open\<lparr>closed := True\<rparr>), var_once := True\<rparr>, Some e)
              | None \<Rightarrow>
                  (g\<lparr>var_db := Some (sql_Open\<lparr>MaxOpenConns := 10, MaxIdleConns := 5,
                                           ConnMaxLifetime := 15 * 60,
                                           ConnMaxIdleTime := 3 * 60\<rparr>),
                     var_once := True\<rparr>, None))))"

text \<open>A run of calls, each in its own environment: the errors returned, in order.\<close>

fun initDB_calls :: "environment list \<Rightarrow> globals \<Rightarrow> string option list" where
  "initDB_calls [] g = []"
| "initDB_calls (env # envs) g =
     (case initDB env g of (g', err) \<Rightarrow> err # initDB_calls envs g')"

definition usable :: "globals \<Rightarrow> bool" where
  "usable g = (case var_db g of None \<Rightarrow> False | Some p \<Rightarrow> \<not> closed p)"

section \<open>Scenarios\<close>

text \<open>
  The stores and requests of the specification's scenarios. The example store takes the
  text without JSON white space as canonical text and the text itself as its hash.
\<close>

definition strip_spaces :: "string \<Rightarrow> string" where
  "strip_spaces s = filter (\<lambda>c. \<not> isSpace c) s"

definition john_doe_record :: row where
  "john_doe_record =
     \<lparr>row_path = ''/api/users'', row_method = ''POST'',
      request_body = Some ''{\"name\": \"John Doe\"}'',
      response_body = ''{\"id\": 124}'',
      response_status_code = Some 201,
      headers = Some ''Content-Type=application/json;Location=/api/users/124''\<rparr>"

definition bodyless_record :: row where
  "bodyless_record =
     \<lparr>row_path = ''/api/users'', row_method = ''POST'',
      request_body = None,
      response_body = ''{\"message\": \"created\"}'',
      response_status_code = Some 201,
      headers = Some ''Content-Type=application/json''\<rparr>"

definition users_store :: store where
  "users_store =
     \<lparr>rows = [john_doe_record, bodyless_record], jsonb_text = strip_spaces,
      md5 = (\<lambda>s. s), fault = None\<rparr>"

definition post_users :: "string \<Rightarrow> Request" where
  "post_users body =
     \<lparr>URL = \<lparr>Path = ''/api/users'', RawQuery = []\<rparr>, Method = ''POST'',
      Body = Some (bytes_NewBuffer body)\<rparr>"

text \<open>An upload that breaks off: the reader ends with an error.\<close>

definition broken_upload :: Request where
  "broken_upload =
     \<lparr>URL = \<lparr>Path = ''/api/users'', RawQuery = []\<rparr>, Method = ''POST'',
      Body = Some \<lparr>pending = ''{\"na'', failure = Some ''unexpected EOF''\<rparr>\<rparr>"

definition active_page_record :: row where
  "active_page_record =
     \<lparr>row_path = ''/api/users?active=true&page=1'', row_method = ''GET'',
      request_body = None, response_body = ''[1]'', response_status_code = Some 200,
      headers = None\<rparr>"

definition page_active_record :: row where
  "page_active_record =
     \<lparr>row_path = ''/api/users?page=1&active=true'', row_method = ''GET'',
      request_body = None, response_body = ''[2]'', response_status_code = Some 200,
      headers = None\<rparr>"

definition query_store :: store where
  "query_store =
     \<lparr>rows = [active_page_record, page_active_record], jsonb_text = strip_spaces,
      md5 = (\<lambda>s. s), fault = None\<rparr>"

definition get_users :: "string \<Rightarrow> Request" where
  "get_users rawQuery =
     \<lparr>URL = \<lparr>Path = ''/api/users'', RawQuery = rawQuery\<rparr>, Method = ''GET'', Body = None\<rparr>"

section \<open>Evaluation rules and auxiliary facts\<close>

text \<open>The definitions a concrete input is evaluated with.\<close>

lemmas scan_eval = checkValid_def scanner_reset_def scanner_eof_def scan_step_def
  stateBeginValue_def stateBeginValueOrEmpty_def stateBeginString_def stateBeginStringOrEmpty_def
  stateEndValue_def stateEndTop_def stateInString_def stateInStringEsc_def stateHex_def
  stateNeg_def state0_def state1_def stateDot_def stateDot0_def stateE_def stateESign_def
  stateE0_def stateLetter_def goto_def scan_error_def pushParseState_def popParseState_def
  maxNestingDepth_def isSpace_def isDigit_def isDigit19_def isHex_def inNumber_def Let_def

lemmas trim_eval = strings_TrimSpace_def asciiSpace_def space2_def space3_def strings_SplitN2_def

lemmas canon_eval = CanonicalMIMEHeaderKey_def validHeaderFieldByte_def lowerLetters_def
  upperLetters_def toUpper_def toLower_def Let_def

lemmas scenario_eval = users_store_def john_doe_record_def bodyless_record_def post_users_def
  query_store_def active_page_record_def page_active_record_def get_users_def
  strip_spaces_def isSpace_def

subsection \<open>The response writer\<close>

lemma canonical_Content_Type: "CanonicalMIMEHeaderKey ''Content-Type'' = ''Content-Type''"
  by (simp add: canon_eval)

lemma canonical_Content_Length: "CanonicalMIMEHeaderKey ''Content-Length'' = ''Content-Length''"
  by (simp add: canon_eval)

lemma canonical_Content_Type_Options:
  "CanonicalMIMEHeaderKey ''X-Content-Type-Options'' = ''X-Content-Type-Options''"
  by (simp add: canon_eval)

lemma WriteHeader_panic:
  assumes "rw_panic w = None" and "rw_status w = None" and "code < 100 \<or> 999 < code"
  shows "WriteHeader w code = w\<lparr>rw_panic := Some code\<rparr>"
  using assms by (simp add: WriteHeader_def)

lemma WriteHeader_interim:
  assumes "rw_panic w = None" and "rw_status w = None"
    and "100 \<le> code" and "code \<le> 199" and "code \<noteq> 101"
  shows "WriteHeader w code = w\<lparr>rw_interim := rw_interim w @ [code]\<rparr>"
  using assms by (simp add: WriteHeader_def)

lemma WriteHeader_final:
  assumes "rw_panic w = None" and "rw_status w = None"
    and "code = 101 \<or> 200 \<le> code" and "code \<le> 999"
  shows "rw_status (WriteHeader w code) = Some code"
    and "rw_panic (WriteHeader w code) = None"
    and "rw_body (WriteHeader w code) = rw_body w"
    and "rw_interim (WriteHeader w code) = rw_interim w"
    and "rw_written (WriteHeader w code) = rw_written w"
    and "rw_head (WriteHeader w code) = rw_head w"
    and "rw_contentLength (WriteHeader w code) =
           (if header_get (rw_header w) ''Content-Length'' = [] then rw_contentLength w
            else (case parseContentLength (header_get (rw_header w) ''Content-Length'') of
                    None \<Rightarrow> rw_contentLength w | Some v \<Rightarrow> Some v))"
    and "rw_header (WriteHeader w code) ''Content-Type'' = rw_header w ''Content-Type''"
  using assms
  by (auto simp: WriteHeader_def Let_def Header_Del_def canonical_Content_Length
      split: option.splits)

lemma Write_panicked: "rw_panic w \<noteq> None \<Longrightarrow> Write w bs = w"
  by (simp add: Write_def)

lemma Write_fixed:
  assumes "rw_panic w = None" and "rw_status w = Some status"
  shows "Write w bs =
     (if bs = [] \<or> \<not> bodyAllowedForStatus status then w
      else if (case rw_contentLength w of None \<Rightarrow> False
               | Some declared \<Rightarrow> declared < rw_written w + length bs)
      then w\<lparr>rw_written := rw_written w + length bs\<rparr>
      else if rw_head w then w\<lparr>rw_written := rw_written w + length bs\<rparr>
      else w\<lparr>rw_written := rw_written w + length bs, rw_body := rw_body w @ bs\<rparr>)"
  using assms by (simp add: Write_def Let_def split: option.splits)

lemma Write_unfixed:
  assumes "rw_panic w = None" and "rw_status w = None"
  shows "Write w bs = Write (WriteHeader w 200) bs"
proof -
  have s: "rw_status (WriteHeader w 200) = Some 200" and p: "rw_panic (WriteHeader w 200) = None"
    using WriteHeader_final[OF assms, of 200] by simp_all
  show ?thesis
    using assms by (simp add: Write_def[of w] Write_def[of "WriteHeader w 200"] s p Let_def)
qed

lemma http_Error_fresh:
  assumes "200 \<le> code" and "code \<le> 999" and "code \<noteq> 204" and "code \<noteq> 304"
  shows "rw_status (http_Error newResponseWriter msg code) = Some code \<and>
         rw_body (http_Error newResponseWriter msg code) = msg @ [CHR 0x0A]"
proof -
  let ?w = "setHeader (setHeader newResponseWriter ''Content-Type'' ''text/plain; charset=utf-8'')
              ''X-Content-Type-Options'' ''nosniff''"
  have clean: "rw_panic ?w = None" "rw_status ?w = None"
    by (simp_all add: setHeader_def newResponseWriter_def)
  have fields: "rw_body ?w = []" "rw_written ?w = 0" "rw_contentLength ?w = None" "rw_head ?w = False"
    by (simp_all add: setHeader_def newResponseWriter_def)
  have cl: "header_get (rw_header ?w) ''Content-Length'' = []"
    by (simp add: setHeader_def newResponseWriter_def Header_Set_def header_get_def
        canonical_Content_Type canonical_Content_Type_Options)
  have fin: "code = 101 \<or> 200 \<le> code" using assms(1) by simp
  note wh = WriteHeader_final[OF clean fin assms(2)]
  have allowed: "bodyAllowedForStatus code"
    using assms by (simp add: bodyAllowedForStatus_def)
  have "Write (WriteHeader ?w code) (msg @ [CHR 0x0A]) =
      (WriteHeader ?w code)\<lparr>rw_written := length msg + 1, rw_body := msg @ [CHR 0x0A]\<rparr>"
    by (simp add: Write_fixed[OF wh(2) wh(1)] allowed wh fields cl)
  then show ?thesis
    by (simp add: http_Error_def wh(1))
qed

lemma http_Error_400:
  "rw_status (http_Error newResponseWriter msg 400) = Some 400 \<and>
   rw_body (http_Error newResponseWriter msg 400) = msg @ [CHR 0x0A]"
  by (rule http_Error_fresh) simp_all

lemma http_Error_404:
  "rw_status (http_Error newResponseWriter msg 404) = Some 404 \<and>
   rw_body (http_Error newResponseWriter msg 404) = msg @ [CHR 0x0A]"
  by (rule http_Error_fresh) simp_all

lemma http_Error_500:
  "rw_status (http_Error newResponseWriter msg 500) = Some 500 \<and>
   rw_body (http_Error newResponseWriter msg 500) = msg @ [CHR 0x0A]"
  by (rule http_Error_fresh) simp_all

lemma applyHeaders_fields:
  "applyHeaders d ks w = w\<lparr>rw_header := rw_header (applyHeaders d ks w)\<rparr>"
proof (induction ks arbitrary: w)
  case Nil
  show ?case by simp
next
  case (Cons k ks)
  show ?case
  proof (cases "d k")
    case None
    then show ?thesis using Cons.IH[of w] by simp
  next
    case (Some v)
    have "applyHeaders d (k # ks) w = applyHeaders d ks (setHeader w k v)"
      using Some by simp
    also have "\<dots> = (setHeader w k v)\<lparr>rw_header := rw_header (applyHeaders d ks (setHeader w k v))\<rparr>"
      by (rule Cons.IH)
    also have "\<dots> = w\<lparr>rw_header := rw_header (applyHeaders d ks (setHeader w k v))\<rparr>"
      by (simp add: setHeader_def)
    finally show ?thesis using Some by simp
  qed
qed

lemma applyHeaders_snoc:
  "applyHeaders d (ks @ [k]) w =
     (case d k of Some v \<Rightarrow> setHeader (applyHeaders d ks w) k v | None \<Rightarrow> applyHeaders d ks w)"
  by (induction ks arbitrary: w) (auto split: option.splits)

lemma applyHeaders_lookup:
  "set ks \<subseteq> dom d \<Longrightarrow>
   rw_header (applyHeaders d ks w) K =
     (if headerKeys K ks = [] then rw_header w K
      else Some [the (d (last (headerKeys K ks)))])"
proof (induction ks rule: rev_induct)
  case Nil
  show ?case by (simp add: headerKeys_def)
next
  case (snoc k ks)
  then obtain v where v: "d k = Some v" by auto
  from snoc have IH: "rw_header (applyHeaders d ks w) K =
     (if headerKeys K ks = [] then rw_header w K
      else Some [the (d (last (headerKeys K ks)))])" by simp
  show ?case
  proof (cases "CanonicalMIMEHeaderKey k = K")
    case True
    then show ?thesis
      by (simp add: applyHeaders_snoc v setHeader_def Header_Set_def headerKeys_def)
  next
    case False
    then show ?thesis
      using IH by (simp add: applyHeaders_snoc v setHeader_def Header_Set_def headerKeys_def)
  qed
qed

lemma storedHeader_the:
  assumes "set ks \<subseteq> dom d"
  shows "storedHeader d ks K =
     (if headerKeys K ks = [] then [] else the (d (last (headerKeys K ks))))"
proof (cases "headerKeys K ks = []")
  case True
  then show ?thesis by (simp add: storedHeader_def)
next
  case False
  then have "last (headerKeys K ks) \<in> set (headerKeys K ks)" by simp
  then have "last (headerKeys K ks) \<in> set ks" by (simp add: headerKeys_def)
  with assms obtain v where "d (last (headerKeys K ks)) = Some v" by auto
  with False show ?thesis by (simp add: storedHeader_def)
qed

lemma applied_header_get:
  assumes "set ks \<subseteq> dom d" and "rw_header w = Map.empty"
  shows "header_get (rw_header (applyHeaders d ks w)) K = storedHeader d ks K"
  by (simp add: header_get_def applyHeaders_lookup[OF assms(1)] assms(2)
      storedHeader_the[OF assms(1)])

lemma Write_after_final:
  assumes clean: "rw_panic w = None" "rw_status w = None"
    and fin: "code = 101 \<or> 200 \<le> code" "code \<le> 999"
    and fresh: "rw_body w = []" "rw_written w = 0" "rw_contentLength w = None"
  shows "rw_status (Write (WriteHeader w code) bs) = Some code"
    and "rw_panic (Write (WriteHeader w code) bs) = None"
    and "rw_interim (Write (WriteHeader w code) bs) = rw_interim w"
    and "rw_header (Write (WriteHeader w code) bs) ''Content-Type'' = rw_header w ''Content-Type''"
    and "rw_body (Write (WriteHeader w code) bs) =
           (if bodyAllowedForStatus code \<and> \<not> rw_head w \<and>
               (header_get (rw_header w) ''Content-Length'' = [] \<or>
                (case parseContentLength (header_get (rw_header w) ''Content-Length'') of
                   None \<Rightarrow> True | Some declared \<Rightarrow> length bs \<le> declared))
            then bs else [])"
proof -
  note wh = WriteHeader_final[OF clean fin]
  note wr = Write_fixed[OF wh(2) wh(1), of bs]
  show "rw_status (Write (WriteHeader w code) bs) = Some code"
    by (simp add: wr wh(1))
  show "rw_panic (Write (WriteHeader w code) bs) = None"
    by (simp add: wr wh(2))
  show "rw_interim (Write (WriteHeader w code) bs) = rw_interim w"
    by (simp add: wr wh(4))
  show "rw_header (Write (WriteHeader w code) bs) ''Content-Type'' = rw_header w ''Content-Type''"
    by (simp add: wr wh(8))
  show "rw_body (Write (WriteHeader w code) bs) =
           (if bodyAllowedForStatus code \<and> \<not> rw_head w \<and>
               (header_get (rw_header w) ''Content-Length'' = [] \<or>
                (case parseContentLength (header_get (rw_header w) ''Content-Length'') of
                   None \<Rightarrow> True | Some declared \<Rightarrow> length bs \<le> declared))
            then bs else [])"
    by (auto simp: wr wh(3,5,6,7) fresh split: option.splits)
qed

lemma writeResponse_form:
  "\<exists>H. writeResponse keys w m =
          Write (WriteHeader (w\<lparr>rw_header := H\<rparr>) (statusCodeOf m)) (ResponseBody m) \<and>
        (set keys \<subseteq> dom (parseHeaders (Headers m)) \<and> rw_header w = Map.empty \<longrightarrow>
           header_get H ''Content-Length'' =
             storedHeader (parseHeaders (Headers m)) keys ''Content-Length'' \<and>
           header_get H ''Content-Type'' =
             (if storedHeader (parseHeaders (Headers m)) keys ''Content-Type'' = []
              then ''application/json''
              else storedHeader (parseHeaders (Headers m)) keys ''Content-Type''))"
proof -
  let ?d = "parseHeaders (Headers m)"
  let ?w1 = "applyHeaders ?d keys w"
  let ?H1 = "rw_header ?w1"
  let ?H2 = "if header_get ?H1 ''Content-Type'' = []
             then ?H1(''Content-Type'' \<mapsto> [''application/json'']) else ?H1"
  have w1: "?w1 = w\<lparr>rw_header := ?H1\<rparr>" by (rule applyHeaders_fields)
  have get: "Header_Get ?H1 ''Content-Type'' = header_get ?H1 ''Content-Type''"
    by (simp add: Header_Get_def header_get_def canonical_Content_Type)
  have w2: "(if Header_Get ?H1 ''Content-Type'' = []
             then setHeader ?w1 ''Content-Type'' ''application/json'' else ?w1)
            = w\<lparr>rw_header := ?H2\<rparr>"
  proof (cases "header_get ?H1 ''Content-Type'' = []")
    case True
    have "setHeader ?w1 ''Content-Type'' ''application/json'' =
        ?w1\<lparr>rw_header := ?H1(''Content-Type'' \<mapsto> [''application/json''])\<rparr>"
      by (simp add: setHeader_def Header_Set_def canonical_Content_Type)
    also have "\<dots> = w\<lparr>rw_header := ?H1(''Content-Type'' \<mapsto> [''application/json''])\<rparr>"
      by (subst w1) simp
    finally show ?thesis using True by (simp add: get)
  next
    case False
    then show ?thesis using w1 by (simp add: get)
  qed
  have form: "writeResponse keys w m =
      Write (WriteHeader (w\<lparr>rw_header := ?H2\<rparr>) (statusCodeOf m)) (ResponseBody m)"
    unfolding writeResponse_def Let_def statusCodeOf_def w2 ..
  have hdr: "header_get ?H2 ''Content-Length'' = storedHeader ?d keys ''Content-Length'' \<and>
           header_get ?H2 ''Content-Type'' =
             (if storedHeader ?d keys ''Content-Type'' = [] then ''application/json''
              else storedHeader ?d keys ''Content-Type'')"
    if sub: "set keys \<subseteq> dom ?d" and e: "rw_header w = Map.empty"
  proof -
    have g: "header_get ?H1 K = storedHeader ?d keys K" for K
      by (rule applied_header_get[OF sub e])
    have upd: "header_get (?H1(''Content-Type'' \<mapsto> [''application/json''])) ''Content-Length''
          = header_get ?H1 ''Content-Length''"
      "header_get (?H1(''Content-Type'' \<mapsto> [''application/json''])) ''Content-Type''
          = ''application/json''"
      by (simp_all add: header_get_def)
    show ?thesis
    proof (cases "header_get ?H1 ''Content-Type'' = []")
      case True
      then show ?thesis using upd by (simp add: g)
    next
      case False
      then show ?thesis by (simp add: g)
    qed
  qed
  from form hdr show ?thesis by blast
qed

lemma responseWriterFor_fresh:
  "rw_panic (responseWriterFor meth) = None" "rw_status (responseWriterFor meth) = None"
  "rw_body (responseWriterFor meth) = []" "rw_written (responseWriterFor meth) = 0"
  "rw_contentLength (responseWriterFor meth) = None" "rw_interim (responseWriterFor meth) = []"
  "rw_header (responseWriterFor meth) = Map.empty"
  "rw_head (responseWriterFor meth) = (meth = ''HEAD'')"
  by (simp_all add: responseWriterFor_def newResponseWriter_def)

lemma newResponseWriter_fresh:
  "rw_panic newResponseWriter = None" "rw_status newResponseWriter = None"
  "rw_body newResponseWriter = []" "rw_written newResponseWriter = 0"
  "rw_contentLength newResponseWriter = None" "rw_interim newResponseWriter = []"
  "rw_header newResponseWriter = Map.empty" "rw_head newResponseWriter = False"
  by (simp_all add: newResponseWriter_def)

lemma writeResponse_status:
  assumes "200 \<le> statusCodeOf m" and "statusCodeOf m \<le> 999"
  shows "rw_status (writeResponse keys newResponseWriter m) = Some (statusCodeOf m)"
proof -
  obtain H where form: "writeResponse keys newResponseWriter m =
      Write (WriteHeader (newResponseWriter\<lparr>rw_header := H\<rparr>) (statusCodeOf m)) (ResponseBody m)"
    using writeResponse_form[of keys newResponseWriter m] by blast
  have fin: "statusCodeOf m = 101 \<or> 200 \<le> statusCodeOf m" using assms(1) by simp
  show ?thesis
    unfolding form
    by (rule Write_after_final(1)[OF _ _ fin assms(2)]) (simp_all add: newResponseWriter_fresh)
qed

lemmas writer_eval = writeResponse_def Header_Get_def Header_Set_def setHeader_def
  WriteHeader_def Write_def newResponseWriter_def http_Error_def http_NotFound_def
  header_get_def Header_Del_def bodyAllowedForStatus_def canonical_Content_Type
  canonical_Content_Length Let_def

subsection \<open>The handler, once the body has been read\<close>

lemma validateAndReturnJSON_nil_error: "snd (validateAndReturnJSON body) = None"
  by (simp add: validateAndReturnJSON_def)

lemma getMockResponse_eq:
  "getMockResponse db p m b =
     ([lookupQuery p m b], db (fst (lookupQuery p m b)) (snd (lookupQuery p m b)))"
  by (simp add: getMockResponse_def lookupQuery_def)

lemma proxyHandler_resolve:
  assumes "snd (readRequestBody r) = Inr body"
  shows "proxyHandler db keys w r =
     (let qa = lookupQuery (buildFullPath r) (Method r) (fst (validateAndReturnJSON body))
      in case db (fst qa) (snd qa) of
           Inl err \<Rightarrow>
             if err = ErrNoRows
             then \<lparr>response = http_NotFound w, issued = [qa], logged = []\<rparr>
             else \<lparr>response = http_Error w ''Internal server error'' 500, issued = [qa],
                   logged = [''Database error: '' @ error_text err]\<rparr>
         | Inr mockResp \<Rightarrow>
             \<lparr>response = writeResponse keys w mockResp, issued = [qa], logged = []\<rparr>)"
proof -
  obtain r' where rb: "readRequestBody r = (r', Inr body)"
    using assms by (cases "readRequestBody r") simp
  obtain v where v: "validateAndReturnJSON body = (v, None)"
    using validateAndReturnJSON_nil_error[of body] by (cases "validateAndReturnJSON body") simp
  show ?thesis
    by (simp add: proxyHandler_def rb v getMockResponse_eq Let_def split: sum.splits)
qed

lemma proxyHandler_issued:
  assumes "snd (readRequestBody r) = Inr body"
  shows "issued (proxyHandler dbq keys w r) =
     [lookupQuery (buildFullPath r) (Method r) (fst (validateAndReturnJSON body))]"
  by (simp add: proxyHandler_resolve[OF assms] Let_def split: sum.splits)

lemma readRequestBody_readable:
  assumes "Body r = Some rd" "failure rd = None"
  shows "readRequestBody r = (r\<lparr>Body := Some (bytes_NewBuffer (pending rd))\<rparr>, Inr (pending rd))"
  using assms by (simp add: readRequestBody_def io_ReadAll_def)

lemma post_users_read: "readRequestBody (post_users b) =
   ((post_users b)\<lparr>Body := Some (bytes_NewBuffer b)\<rparr>, Inr b)"
  by (simp add: readRequestBody_readable[of _ "bytes_NewBuffer b"] post_users_def bytes_NewBuffer_def)

lemma post_users_key:
  "buildFullPath (post_users b) = ''/api/users''" "Method (post_users b) = ''POST''"
  by (simp_all add: buildFullPath_def post_users_def)

subsection \<open>The header codec\<close>

lemma map_add_entry: "h(k \<mapsto> v) ++ m = h ++ (map_of [(k, v)] ++ m)"
proof -
  have "h(k \<mapsto> v) = h ++ map_of [(k, v)]" by simp
  then show ?thesis by (simp only: map_add_assoc)
qed

lemma decode_entries_Cons:
  "decode_entries (p # segs) =
     (if strings_TrimSpace p \<noteq> [] \<and> CHR ''='' \<in> set (strings_TrimSpace p)
      then decode_segment (strings_TrimSpace p) # decode_entries segs
      else decode_entries segs)"
  by (simp add: decode_entries_def)

lemma parsePairs_entries:
  "parsePairs segs h = h ++ map_of (rev (decode_entries segs))"
proof (induction segs arbitrary: h)
  case Nil
  show ?case by (simp add: decode_entries_def)
next
  case (Cons p segs)
  show ?case
  proof (cases "strings_TrimSpace p \<noteq> [] \<and> CHR ''='' \<in> set (strings_TrimSpace p)")
    case True
    then have "parsePairs (p # segs) h =
        parsePairs segs (h(fst (decode_segment (strings_TrimSpace p)) \<mapsto>
                           snd (decode_segment (strings_TrimSpace p))))"
      by (simp add: strings_SplitN2_def decode_segment_def Let_def)
    also have "\<dots> = h ++ (map_of [decode_segment (strings_TrimSpace p)] ++
                          map_of (rev (decode_entries segs)))"
      by (simp only: Cons.IH map_add_entry prod.collapse)
    also have "\<dots> = h ++ map_of (rev (decode_entries (p # segs)))"
    proof -
      have "decode_entries (p # segs) = decode_segment (strings_TrimSpace p) # decode_entries segs"
        using True by (simp add: decode_entries_Cons)
      then show ?thesis by (simp only: rev.simps map_of_append)
    qed
    finally show ?thesis .
  next
    case False
    then have "parsePairs (p # segs) h = parsePairs segs h"
      by (auto simp: strings_SplitN2_def Let_def)
    moreover have "decode_entries (p # segs) = decode_entries segs"
      using False by (simp add: decode_entries_Cons)
    ultimately show ?thesis by (simp only: Cons.IH)
  qed
qed

lemma decode_spec_Nil: "decode_spec [] = Map.empty"
  by (simp add: decode_spec_def decode_entries_def trim_eval)

subsection \<open>JSON texts\<close>

lemma checkValid_Nil: "\<not> checkValid []"
  by (simp add: scan_eval)

text \<open>
  \<open>1e400\<close> is a JSON number, and too large for a \<open>float64\<close>:
  \<open>2 ^ 1024 \<le> 2 ^ 1200 = 8 ^ 400 \<le> 10 ^ 400\<close>.
\<close>

lemma float64Limit_le_pow10_400: "float64Limit \<le> pow10 400"
proof -
  have "float64Limit \<le> (2::nat) ^ 1024"
    unfolding float64Limit_def by (rule diff_le_self)
  also have "(2::nat) ^ 1024 \<le> 2 ^ 1200"
    by (rule power_increasing) simp_all
  also have "(2::nat) ^ 1200 = (2 ^ 3) ^ 400"
  proof -
    have e: "(3::nat) * 400 = 1200" by simp
    show ?thesis using power_mult[of "2::nat" 3 400] unfolding e .
  qed
  also have "((2::nat) ^ 3) ^ 400 \<le> 10 ^ 400"
    by (rule power_mono) simp_all
  finally show ?thesis unfolding pow10_def .
qed

lemma float64Overflow_1e400: "float64Overflow ''1e400''"
  by (simp add: float64Overflow_def isDigit_def digitsVal_def digitVal_def Let_def
      float64Limit_le_pow10_400)

lemma checkValid_1e400: "checkValid ''1e400''"
  by (simp add: scan_eval)

lemma numberLiterals_1e400: "numberLiterals scanner_reset [] ''1e400'' = [''1e400'']"
  by (simp add: scan_eval)

lemma json_Unmarshal_1e400: "\<not> json_Unmarshal_ok ''1e400''"
  unfolding json_Unmarshal_ok_def numberLiterals_1e400
  using float64Overflow_1e400 by simp

lemma json_Unmarshal_new_user: "json_Unmarshal_ok ''{\"name\":\"New User\"}''"
  by (simp add: json_Unmarshal_ok_def scan_eval)

lemma json_Unmarshal_null: "json_Unmarshal_ok ''null''"
  by (simp add: json_Unmarshal_ok_def scan_eval)

text \<open>
  White space leaves the scanner where it started (or is an error, for the two bytes
  that are no JSON white space), and the end of input is an error there.
\<close>

lemma scan_step_space:
  assumes "asciiSpace c"
  shows "scan_step scanner_reset c = (scanSkipSpace, scanner_reset) \<or>
         fst (scan_step scanner_reset c) = scanError"
proof -
  from assms consider "c = CHR 0x09" | "c = CHR 0x0A" | "c = CHR 0x0B" | "c = CHR 0x0C"
    | "c = CHR 0x0D" | "c = CHR 0x20"
    by (auto simp: asciiSpace_def)
  then show ?thesis
    by cases (simp_all add: scan_eval)
qed

lemma scanBytes_spaces:
  "list_all asciiSpace cs \<Longrightarrow>
     scanBytes scanner_reset cs = None \<or> scanBytes scanner_reset cs = Some scanner_reset"
proof (induction cs)
  case Nil
  show ?case by simp
next
  case (Cons c cs)
  then have c: "asciiSpace c" and cs: "list_all asciiSpace cs" by simp_all
  from scan_step_space[OF c] show ?case
  proof
    assume "scan_step scanner_reset c = (scanSkipSpace, scanner_reset)"
    then have "scanBytes scanner_reset (c # cs) = scanBytes scanner_reset cs" by simp
    with Cons.IH[OF cs] show ?thesis by simp
  next
    assume "fst (scan_step scanner_reset c) = scanError"
    then have "scanBytes scanner_reset (c # cs) = None"
      by (cases "scan_step scanner_reset c") simp
    then show ?thesis by simp
  qed
qed

lemma checkValid_spaces: "list_all asciiSpace cs \<Longrightarrow> \<not> checkValid cs"
proof -
  assume "list_all asciiSpace cs"
  then have "scanBytes scanner_reset cs = None \<or> scanBytes scanner_reset cs = Some scanner_reset"
    by (rule scanBytes_spaces)
  moreover have "scanner_eof scanner_reset = scanError"
    by (simp add: scan_eval)
  ultimately show ?thesis by (auto simp: checkValid_def)
qed

subsection \<open>The one-time initializer\<close>

lemma initDB_after_once: "var_once g \<Longrightarrow> initDB env g = (g, None)"
  by (simp add: initDB_def)

lemma initDB_calls_after_once:
  "var_once g \<Longrightarrow> initDB_calls envs g = replicate (length envs) None"
  by (induction envs) (simp_all add: initDB_after_once)

section \<open>The claims\<close>

subsection \<open>C1: the two queries of the resolver\<close>

text \<open>
  C1. For every lookup key the resolver sends exactly one of two queries. With an empty
  \<open>requestBodyJSON\<close> (the absent body) it is the query for a row with the path, the
  method and a NULL \<open>request_body\<close>; otherwise it is the query for a row with the path,
  the method and a stored \<open>request_body\<close> whose canonical-text MD5 equals that of the
  submitted body. The hash is taken by the store, so two bodies with the same canonical
  text select the same rows; and a record that comes back is a row the query selects.
\<close>

theorem getMockResponse_two_queries:
  "(b = [] \<longrightarrow> getMockResponse dbq p m b = ([(SelectNullBody, [p, m])], dbq SelectNullBody [p, m]))
 \<and> (b \<noteq> [] \<longrightarrow>
       getMockResponse dbq p m b = ([(SelectBodyHash, [p, m, b])], dbq SelectBodyHash [p, m, b]))
 \<and> selects st SelectNullBody [p, m] r =
       (row_path r = p \<and> row_method r = m \<and> request_body r = None)
 \<and> selects st SelectBodyHash [p, m, b] r =
       (row_path r = p \<and> row_method r = m \<and>
        (\<exists>rb. request_body r = Some rb \<and> md5 st (jsonb_text st rb) = md5 st (jsonb_text st b)))
 \<and> (jsonb_text st b = jsonb_text st b' \<longrightarrow>
       selects st SelectBodyHash [p, m, b] r = selects st SelectBodyHash [p, m, b'] r)
 \<and> (\<forall>resp. QueryRow st q args = Inr resp \<longrightarrow>
       (\<exists>r' \<in> set (rows st). selects st q args r' \<and> Scan r' = Inr resp))"
proof -
  have "\<forall>resp. QueryRow st q args = Inr resp \<longrightarrow>
       (\<exists>r' \<in> set (rows st). selects st q args r' \<and> Scan r' = Inr resp)"
  proof (intro allI impI)
    fix resp assume a: "QueryRow st q args = Inr resp"
    then obtain r' rs where f: "filter (selects st q args) (rows st) = r' # rs" and s: "Scan r' = Inr resp"
      by (auto simp: QueryRow_def split: option.splits list.splits)
    from f have "r' \<in> set (filter (selects st q args) (rows st))" by simp
    then have "r' \<in> set (rows st) \<and> selects st q args r'" by simp
    with s show "\<exists>r' \<in> set (rows st). selects st q args r' \<and> Scan r' = Inr resp" by blast
  qed
  then show ?thesis
    by (auto simp: getMockResponse_def split: option.splits)
qed

text \<open>
  Witness for C1: in the example store \<open>[1, 2]\<close> and \<open>[1,2]\<close> have the same canonical
  text, and the two branches send the queries stated.
\<close>

theorem getMockResponse_two_queries_witness:
  "strip_spaces ''[1, 2]'' = strip_spaces ''[1,2]''
 \<and> selects users_store SelectBodyHash [''/api/users'', ''POST'', ''[1, 2]''] john_doe_record =
   selects users_store SelectBodyHash [''/api/users'', ''POST'', ''[1,2]''] john_doe_record
 \<and> getMockResponse (QueryRow users_store) ''/api/users'' ''POST'' ''[1, 2]'' =
     ([(SelectBodyHash, [''/api/users'', ''POST'', ''[1, 2]''])], Inl ErrNoRows)
 \<and> getMockResponse (QueryRow users_store) ''/api/users'' ''POST'' [] =
     ([(SelectNullBody, [''/api/users'', ''POST''])], Scan bodyless_record)"
proof -
  have h: "jsonb_text users_store ''[1, 2]'' = jsonb_text users_store ''[1,2]''"
    by (simp add: scenario_eval)
  have nb: "QueryRow users_store SelectNullBody [''/api/users'', ''POST''] = Scan bodyless_record"
    by (simp add: QueryRow_def scenario_eval)
  have hb: "QueryRow users_store SelectBodyHash [''/api/users'', ''POST'', ''[1, 2]''] = Inl ErrNoRows"
    by (simp add: QueryRow_def scenario_eval)
  note t = getMockResponse_two_queries[of "''[1, 2]''" "QueryRow users_store" "''/api/users''" "''POST''"
      users_store john_doe_record "''[1,2]''" SelectNullBody "[]"]
  note t0 = getMockResponse_two_queries[of "[]" "QueryRow users_store" "''/api/users''" "''POST''"
      users_store john_doe_record "[]" SelectNullBody "[]"]
  from t h have "selects users_store SelectBodyHash [''/api/users'', ''POST'', ''[1, 2]''] john_doe_record =
   selects users_store SelectBodyHash [''/api/users'', ''POST'', ''[1,2]''] john_doe_record"
    by blast
  moreover from t have "getMockResponse (QueryRow users_store) ''/api/users'' ''POST'' ''[1, 2]'' =
     ([(SelectBodyHash, [''/api/users'', ''POST'', ''[1, 2]''])], Inl ErrNoRows)"
    by (simp add: hb)
  moreover from t0 have "getMockResponse (QueryRow users_store) ''/api/users'' ''POST'' [] =
     ([(SelectNullBody, [''/api/users'', ''POST''])], Scan bodyless_record)"
    by (simp add: nb)
  moreover have "strip_spaces ''[1, 2]'' = strip_spaces ''[1,2]''"
    by (simp add: scenario_eval)
  ultimately show ?thesis by blast
qed

subsection \<open>C2: a body never matches a body-less record\<close>

text \<open>
  C2, as stated, fails: \<open>1e400\<close> is a non-empty, syntactically valid JSON body, no row
  of the example store matches it by hash, and yet the request is answered with the
  body-less record's status 201. \<open>json.Unmarshal\<close> rejects the number as out of the
  range of \<open>float64\<close>, so the body counts as absent.
\<close>

theorem bodyless_record_matches_overflow_body:
  "checkValid ''1e400'' \<and> ''1e400'' \<noteq> [] \<and>
   filter (selects users_store SelectBodyHash [''/api/users'', ''POST'', ''1e400''])
     (rows users_store) = [] \<and>
   rw_status (response (proxyHandler (QueryRow users_store) [''Content-Type''] newResponseWriter
                (post_users ''1e400''))) = Some 201"
proof -
  have v: "validateAndReturnJSON ''1e400'' = ([], None)"
    by (simp add: validateAndReturnJSON_def json_Unmarshal_1e400)
  have q: "QueryRow users_store SelectNullBody [''/api/users'', ''POST''] = Scan bodyless_record"
    by (simp add: QueryRow_def scenario_eval)
  have rb: "snd (readRequestBody (post_users ''1e400'')) = Inr ''1e400''"
    by (simp add: post_users_read)
  have "rw_status (response (proxyHandler (QueryRow users_store) [''Content-Type''] newResponseWriter
                (post_users ''1e400''))) = Some 201"
    by (simp add: proxyHandler_resolve[OF rb] v lookupQuery_def post_users_key q Scan_def
        bodyless_record_def writeResponse_status statusCodeOf_def)
  moreover have "filter (selects users_store SelectBodyHash [''/api/users'', ''POST'', ''1e400''])
     (rows users_store) = []"
    by (simp add: scenario_eval)
  ultimately show ?thesis using checkValid_1e400 by simp
qed

text \<open>
  C2, amended. For every request with a readable body that \<open>json.Unmarshal\<close> accepts
  (non-empty, syntactically valid JSON whose numbers fit a \<open>float64\<close>), and a store
  that answers: a row whose \<open>request_body\<close> is NULL never matches the hash query; and
  if no row matches by hash for that path and method, the handler sends that one query
  and answers with \<open>http.NotFound\<close>, status 404, whatever body-less rows exist.
\<close>

theorem json_body_never_matches_bodyless:
  assumes "Body r = Some rd" and "failure rd = None"
    and "json_Unmarshal_ok (pending rd)"
    and "fault st = None"
    and "filter (selects st SelectBodyHash [buildFullPath r, Method r, pending rd]) (rows st) = []"
  shows "pending rd \<noteq> []
       \<and> (\<forall>rw. request_body rw = None \<longrightarrow>
             \<not> selects st SelectBodyHash [buildFullPath r, Method r, pending rd] rw)
       \<and> issued (proxyHandler (QueryRow st) keys newResponseWriter r) =
           [(SelectBodyHash, [buildFullPath r, Method r, pending rd])]
       \<and> response (proxyHandler (QueryRow st) keys newResponseWriter r) = http_NotFound newResponseWriter
       \<and> rw_status (response (proxyHandler (QueryRow st) keys newResponseWriter r)) = Some 404"
proof -
  have ne: "pending rd \<noteq> []"
    using assms(3) checkValid_Nil by (auto simp: json_Unmarshal_ok_def)
  have rb: "snd (readRequestBody r) = Inr (pending rd)"
    by (simp add: readRequestBody_readable[OF assms(1,2)])
  have v: "fst (validateAndReturnJSON (pending rd)) = pending rd"
    using assms(3) ne by (simp add: validateAndReturnJSON_def)
  have q: "QueryRow st SelectBodyHash [buildFullPath r, Method r, pending rd] = Inl ErrNoRows"
    using assms(4,5) by (simp add: QueryRow_def)
  have "proxyHandler (QueryRow st) keys newResponseWriter r =
      \<lparr>response = http_NotFound newResponseWriter,
       issued = [(SelectBodyHash, [buildFullPath r, Method r, pending rd])], logged = []\<rparr>"
    using ne by (simp add: proxyHandler_resolve[OF rb] v lookupQuery_def q)
  then show ?thesis
    using ne by (simp add: http_NotFound_def http_Error_404)
qed

text \<open>
  Witness for C2: POST \<open>/api/users\<close> with the body \<open>{"name":"New User"}\<close> against the
  example store, which holds a body-less record for that path and method.
\<close>

theorem json_body_never_matches_bodyless_witness:
  "Body (post_users ''{\"name\":\"New User\"}'') = Some (bytes_NewBuffer ''{\"name\":\"New User\"}'')
 \<and> json_Unmarshal_ok ''{\"name\":\"New User\"}''
 \<and> bodyless_record \<in> set (rows users_store)
 \<and> \<not> selects users_store SelectBodyHash [''/api/users'', ''POST'', ''{\"name\":\"New User\"}''] bodyless_record
 \<and> rw_status (response (proxyHandler (QueryRow users_store) [] newResponseWriter
                 (post_users ''{\"name\":\"New User\"}''))) = Some 404"
proof -
  let ?b = "''{\"name\":\"New User\"}''"
  have h1: "Body (post_users ?b) = Some (bytes_NewBuffer ?b)" by (simp add: post_users_def)
  have h2: "failure (bytes_NewBuffer ?b) = None" by (simp add: bytes_NewBuffer_def)
  have h3: "json_Unmarshal_ok (pending (bytes_NewBuffer ?b))"
    using json_Unmarshal_new_user by (simp add: bytes_NewBuffer_def)
  have h4: "fault users_store = None" by (simp add: users_store_def)
  have h5: "filter (selects users_store SelectBodyHash
              [buildFullPath (post_users ?b), Method (post_users ?b), pending (bytes_NewBuffer ?b)])
              (rows users_store) = []"
    by (simp add: scenario_eval buildFullPath_def bytes_NewBuffer_def)
  note t = json_body_never_matches_bodyless[OF h1 h2 h3 h4 h5, of "[]"]
  have nb: "request_body bodyless_record = None" by (simp add: bodyless_record_def)
  have args: "[buildFullPath (post_users ?b), Method (post_users ?b), pending (bytes_NewBuffer ?b)]
      = [''/api/users'', ''POST'', ?b]"
    by (simp add: buildFullPath_def post_users_def bytes_NewBuffer_def)
  from t nb have "\<not> selects users_store SelectBodyHash
      [buildFullPath (post_users ?b), Method (post_users ?b), pending (bytes_NewBuffer ?b)] bodyless_record"
    by blast
  then have "\<not> selects users_store SelectBodyHash [''/api/users'', ''POST'', ?b] bodyless_record"
    unfolding args .
  moreover from t have "rw_status (response (proxyHandler (QueryRow users_store) [] newResponseWriter
                 (post_users ?b))) = Some 404" by blast
  moreover have "bodyless_record \<in> set (rows users_store)" by (simp add: users_store_def)
  ultimately show ?thesis using h1 json_Unmarshal_new_user by blast
qed

subsection \<open>C3: a malformed body is an absent body\<close>

text \<open>
  C3. For every request whose body is present (read without error, not empty) but does
  not decode as JSON, the normalizer returns the empty string and no error, the one
  query sent is the NULL-body query, and the whole outcome of the handler is that of the
  same request without a body.
\<close>

theorem malformed_body_treated_as_absent:
  assumes "Body r = Some rd" and "failure rd = None"
    and "pending rd \<noteq> []" and "\<not> json_Unmarshal_ok (pending rd)"
  shows "snd (readRequestBody r) = Inr (pending rd)
       \<and> validateAndReturnJSON (pending rd) = ([], None)
       \<and> issued (proxyHandler dbq keys w r) = [(SelectNullBody, [buildFullPath r, Method r])]
       \<and> proxyHandler dbq keys w r = proxyHandler dbq keys w (r\<lparr>Body := None\<rparr>)"
proof -
  have rb: "snd (readRequestBody r) = Inr (pending rd)"
    by (simp add: readRequestBody_readable[OF assms(1,2)])
  have v: "validateAndReturnJSON (pending rd) = ([], None)"
    using assms(4) by (simp add: validateAndReturnJSON_def)
  have rn: "snd (readRequestBody (r\<lparr>Body := None\<rparr>)) = Inr []"
    by (simp add: readRequestBody_def)
  have v0: "validateAndReturnJSON [] = ([], None)"
    by (simp add: validateAndReturnJSON_def)
  have key: "buildFullPath (r\<lparr>Body := None\<rparr>) = buildFullPath r" "Method (r\<lparr>Body := None\<rparr>) = Method r"
    by (simp_all add: buildFullPath_def Let_def)
  have eq: "proxyHandler dbq keys w r = proxyHandler dbq keys w (r\<lparr>Body := None\<rparr>)"
    by (simp only: proxyHandler_resolve[OF rb] proxyHandler_resolve[OF rn] v v0 key)
  have "issued (proxyHandler dbq keys w r) = [(SelectNullBody, [buildFullPath r, Method r])]"
    by (simp add: proxyHandler_resolve[OF rb] v lookupQuery_def Let_def split: sum.splits)
  with rb v eq show ?thesis by blast
qed

text \<open>
  Witness for C3: the body \<open>{name: New User\<close> is not JSON; the request gets the
  body-less record.
\<close>

theorem malformed_body_treated_as_absent_witness:
  "Body (post_users ''{name: New User'') = Some (bytes_NewBuffer ''{name: New User'')
 \<and> \<not> json_Unmarshal_ok ''{name: New User''
 \<and> validateAndReturnJSON ''{name: New User'' = ([], None)
 \<and> issued (proxyHandler (QueryRow users_store) [''Content-Type''] newResponseWriter
       (post_users ''{name: New User'')) = [(SelectNullBody, [''/api/users'', ''POST''])]
 \<and> rw_status (response (proxyHandler (QueryRow users_store) [''Content-Type''] newResponseWriter
       (post_users ''{name: New User''))) = Some 201"
proof -
  let ?b = "''{name: New User''"
  let ?r = "post_users ?b"
  have h1: "Body ?r = Some (bytes_NewBuffer ?b)" by (simp add: post_users_def)
  have h2: "failure (bytes_NewBuffer ?b) = None" by (simp add: bytes_NewBuffer_def)
  have h3: "pending (bytes_NewBuffer ?b) \<noteq> []" by (simp add: bytes_NewBuffer_def)
  have bad: "\<not> json_Unmarshal_ok ?b" by (simp add: json_Unmarshal_ok_def scan_eval)
  have h4: "\<not> json_Unmarshal_ok (pending (bytes_NewBuffer ?b))"
    using bad by (simp add: bytes_NewBuffer_def)
  note t = malformed_body_treated_as_absent[OF h1 h2 h3 h4,
      of "QueryRow users_store" "[''Content-Type'']" newResponseWriter]
  have p: "pending (bytes_NewBuffer ?b) = ?b" by (simp add: bytes_NewBuffer_def)
  have rn: "snd (readRequestBody (?r\<lparr>Body := None\<rparr>)) = Inr []"
    by (simp add: readRequestBody_def)
  have v0: "validateAndReturnJSON [] = ([], None)"
    by (simp add: validateAndReturnJSON_def)
  have q: "QueryRow users_store SelectNullBody [''/api/users'', ''POST''] = Scan bodyless_record"
    by (simp add: QueryRow_def scenario_eval)
  have key: "buildFullPath (?r\<lparr>Body := None\<rparr>) = ''/api/users''" "Method (?r\<lparr>Body := None\<rparr>) = ''POST''"
    by (simp_all add: buildFullPath_def post_users_def)
  have "rw_status (response (proxyHandler (QueryRow users_store) [''Content-Type''] newResponseWriter
          (?r\<lparr>Body := None\<rparr>))) = Some 201"
    by (simp add: proxyHandler_resolve[OF rn] v0 lookupQuery_def key q Scan_def
        bodyless_record_def writeResponse_status statusCodeOf_def)
  with t have "rw_status (response (proxyHandler (QueryRow users_store) [''Content-Type''] newResponseWriter
          ?r)) = Some 201" by simp
  moreover from t have "validateAndReturnJSON ?b = ([], None)" unfolding p by blast
  moreover have "issued (proxyHandler (QueryRow users_store) [''Content-Type''] newResponseWriter ?r)
      = [(SelectNullBody, [''/api/users'', ''POST''])]"
  proof -
    from t have "issued (proxyHandler (QueryRow users_store) [''Content-Type''] newResponseWriter ?r)
      = [(SelectNullBody, [buildFullPath ?r, Method ?r])]" by blast
    then show ?thesis unfolding post_users_key .
  qed
  ultimately show ?thesis using h1 bad by blast
qed

subsection \<open>C4: the header codec\<close>

text \<open>
  C4. For every serialized header string, \<open>parseHeaders\<close> (in both source files) is the
  decoder of the specification: split on \<open>;\<close>, trim, skip empty segments, cut at the
  first \<open>=\<close> and drop the segments without one, trim key and value, later keys
  overwrite earlier ones; it always returns a map, the empty one for a NULL column.
  \<open>Content-Type=application/json;X-Test=1\<close> decodes to exactly the two entries, and
  \<open>A=1;\<close> to the one entry for \<open>A\<close>, with no entry for the empty key.
\<close>

theorem parseHeaders_decodes:
  "parseHeaders \<lparr>String = s, Valid = True\<rparr> = decode_spec s
 \<and> parseHeaders_main s = decode_spec s
 \<and> parseHeaders \<lparr>String = s, Valid = False\<rparr> = Map.empty
 \<and> parseHeaders \<lparr>String = ''Content-Type=application/json;X-Test=1'', Valid = True\<rparr> =
     [''Content-Type'' \<mapsto> ''application/json'', ''X-Test'' \<mapsto> ''1'']
 \<and> parseHeaders \<lparr>String = ''A=1;'', Valid = True\<rparr> = [''A'' \<mapsto> ''1'']
 \<and> [] \<notin> dom (parseHeaders \<lparr>String = ''A=1;'', Valid = True\<rparr>)"
proof -
  have spec: "parsePairs (strings_Split s CHR '';'') Map.empty = decode_spec s"
    by (simp add: parsePairs_entries decode_spec_def)
  have a: "parseHeaders \<lparr>String = s, Valid = True\<rparr> = decode_spec s"
    by (cases "s = []") (simp_all add: parseHeaders_def spec decode_spec_Nil)
  have b: "parseHeaders_main s = decode_spec s"
    by (cases "s = []") (simp_all add: parseHeaders_main_def spec decode_spec_Nil)
  have c: "parseHeaders \<lparr>String = s, Valid = False\<rparr> = Map.empty"
    by (simp add: parseHeaders_def)
  have d: "parseHeaders \<lparr>String = ''Content-Type=application/json;X-Test=1'', Valid = True\<rparr> =
     [''Content-Type'' \<mapsto> ''application/json'', ''X-Test'' \<mapsto> ''1'']"
    by (simp add: parseHeaders_def trim_eval)
  have e: "parseHeaders \<lparr>String = ''A=1;'', Valid = True\<rparr> = [''A'' \<mapsto> ''1'']"
    by (simp add: parseHeaders_def trim_eval)
  have f: "[] \<notin> dom (parseHeaders \<lparr>String = ''A=1;'', Valid = True\<rparr>)"
    by (simp add: e)
  from a b c d e f show ?thesis by blast
qed

text \<open>
  Witness for C4: a string with padding, an empty segment, a duplicate key, a segment
  without \<open>=\<close> and a segment with an empty key.
\<close>

theorem parseHeaders_decodes_witness:
  "parseHeaders \<lparr>String = '' k = v ;; k=w; junk ;=x'', Valid = True\<rparr> =
     decode_spec '' k = v ;; k=w; junk ;=x''
 \<and> decode_spec '' k = v ;; k=w; junk ;=x'' = [''k'' \<mapsto> ''w'', [] \<mapsto> ''x'']"
proof -
  have "decode_spec '' k = v ;; k=w; junk ;=x'' = [''k'' \<mapsto> ''w'', [] \<mapsto> ''x'']"
    by (simp add: decode_spec_def decode_entries_def decode_segment_def trim_eval)
  with parseHeaders_decodes[of "'' k = v ;; k=w; junk ;=x''"] show ?thesis by blast
qed

subsection \<open>C5: materialization\<close>

text \<open>
  C5, as stated, fails. The stored headers \<open>Content-Type=\<close> decode to a map that does
  set \<open>Content-Type\<close> (to the empty string), and the response still gets
  \<open>application/json\<close>, since the guard is \<open>Get("Content-Type") == ""\<close>. A record
  with \<open>response_status_code\<close> 42 makes \<open>WriteHeader\<close> panic: no status and no body;
  with 103 the status of the response is 200; with 204, for a \<open>HEAD\<close> request, or with
  a stored \<open>Content-Length\<close> smaller than the body, no body is sent.
\<close>

theorem stored_record_not_materialized_as_claimed:
  "parseHeaders \<lparr>String = ''Content-Type='', Valid = True\<rparr> ''Content-Type'' = Some []
 \<and> Header_Get (rw_header (writeResponse [''Content-Type''] newResponseWriter
       \<lparr>ResponseBody = ''{}'', ResponseStatusCode = 200,
        Headers = \<lparr>String = ''Content-Type='', Valid = True\<rparr>\<rparr>)) ''Content-Type''
     = ''application/json''
 \<and> rw_status (writeResponse [] newResponseWriter
       \<lparr>ResponseBody = ''{}'', ResponseStatusCode = 42,
        Headers = \<lparr>String = [], Valid = False\<rparr>\<rparr>) = None
 \<and> rw_body (writeResponse [] newResponseWriter
       \<lparr>ResponseBody = ''{}'', ResponseStatusCode = 42,
        Headers = \<lparr>String = [], Valid = False\<rparr>\<rparr>) = []
 \<and> rw_status (writeResponse [] newResponseWriter
       \<lparr>ResponseBody = ''{}'', ResponseStatusCode = 103,
        Headers = \<lparr>String = [], Valid = False\<rparr>\<rparr>) = Some 200
 \<and> rw_body (writeResponse [] newResponseWriter
       \<lparr>ResponseBody = ''{}'', ResponseStatusCode = 204,
        Headers = \<lparr>String = [], Valid = False\<rparr>\<rparr>) = []
 \<and> rw_body (writeResponse [] (responseWriterFor ''HEAD'')
       \<lparr>ResponseBody = ''{}'', ResponseStatusCode = 200,
        Headers = \<lparr>String = [], Valid = False\<rparr>\<rparr>) = []
 \<and> rw_body (writeResponse [''Content-Length''] newResponseWriter
       \<lparr>ResponseBody = ''{}'', ResponseStatusCode = 200,
        Headers = \<lparr>String = ''Content-Length=1'', Valid = True\<rparr>\<rparr>) = []"
proof -
  have d: "parseHeaders \<lparr>String = ''Content-Type='', Valid = True\<rparr> = [''Content-Type'' \<mapsto> []]"
    by (simp add: parseHeaders_def trim_eval)
  have e: "parseHeaders \<lparr>String = [], Valid = False\<rparr> = Map.empty"
    by (simp add: parseHeaders_def)
  have l: "parseHeaders \<lparr>String = ''Content-Length=1'', Valid = True\<rparr> = [''Content-Length'' \<mapsto> ''1'']"
    by (simp add: parseHeaders_def trim_eval)
  have one: "parseContentLength ''1'' = Some 1"
    by (simp add: parseContentLength_def isDigit_def digitsVal_def digitVal_def)
  have c1: "Header_Get (rw_header (writeResponse [''Content-Type''] newResponseWriter
       \<lparr>ResponseBody = ''{}'', ResponseStatusCode = 200,
        Headers = \<lparr>String = ''Content-Type='', Valid = True\<rparr>\<rparr>)) ''Content-Type''
     = ''application/json''"
    by (simp add: d writer_eval)
  have c2: "rw_status (writeResponse [] newResponseWriter
       \<lparr>ResponseBody = ''{}'', ResponseStatusCode = 42,
        Headers = \<lparr>String = [], Valid = False\<rparr>\<rparr>) = None"
    and c3: "rw_body (writeResponse [] newResponseWriter
       \<lparr>ResponseBody = ''{}'', ResponseStatusCode = 42,
        Headers = \<lparr>String = [], Valid = False\<rparr>\<rparr>) = []"
    by (simp_all add: e writer_eval)
  have c4: "rw_status (writeResponse [] newResponseWriter
       \<lparr>ResponseBody = ''{}'', ResponseStatusCode = 103,
        Headers = \<lparr>String = [], Valid = False\<rparr>\<rparr>) = Some 200"
    by (simp add: e writer_eval)
  have c5: "rw_body (writeResponse [] newResponseWriter
       \<lparr>ResponseBody = ''{}'', ResponseStatusCode = 204,
        Headers = \<lparr>String = [], Valid = False\<rparr>\<rparr>) = []"
    by (simp add: e writer_eval)
  have c6: "rw_body (writeResponse [] (responseWriterFor ''HEAD'')
       \<lparr>ResponseBody = ''{}'', ResponseStatusCode = 200,
        Headers = \<lparr>String = [], Valid = False\<rparr>\<rparr>) = []"
    by (simp add: e writer_eval responseWriterFor_def)
  have c7: "rw_body (writeResponse [''Content-Length''] newResponseWriter
       \<lparr>ResponseBody = ''{}'', ResponseStatusCode = 200,
        Headers = \<lparr>String = ''Content-Length=1'', Valid = True\<rparr>\<rparr>) = []"
    by (simp add: l one writer_eval)
  from d c1 c2 c3 c4 c5 c6 c7 show ?thesis by simp
qed

text \<open>
  C5, amended. For every resolved record whose status code (\<open>response_status_code\<close>,
  or 200 when that is zero) is a final status code from 200 to 999, written to the fresh
  response of a request in any iteration order of the decoded headers: the status is
  that code; \<open>Content-Type\<close> is \<open>application/json\<close> if and only if the decoded headers
  leave it empty, that is, no decoded key names \<open>Content-Type\<close> (up to the canonical
  spelling of header names) or the one applied last has the empty value, and otherwise
  it is that stored value; and the body is the record's \<open>response_body\<close>, byte for
  byte, when in addition the status is not 204 or 304, the request is not a \<open>HEAD\<close>
  request and the stored headers declare no \<open>Content-Length\<close> smaller than the body.
  Outside these bounds: a code below 100 or above 999 is a panic of the handler, with no
  status and no body; a 1xx code other than 101 is sent as an informational response and
  the status is 200; and with 101, 204 or 304, for a \<open>HEAD\<close> request, or with a smaller
  declared length, no body is sent.
\<close>

theorem writeResponse_materializes:
  assumes "distinct keys" and "set keys = dom (parseHeaders (Headers m))"
  shows "(200 \<le> statusCodeOf m \<and> statusCodeOf m \<le> 999 \<longrightarrow>
            rw_status (writeResponse keys (responseWriterFor meth) m) = Some (statusCodeOf m) \<and>
            rw_panic (writeResponse keys (responseWriterFor meth) m) = None \<and>
            rw_interim (writeResponse keys (responseWriterFor meth) m) = [] \<and>
            Header_Get (rw_header (writeResponse keys (responseWriterFor meth) m)) ''Content-Type'' =
              (if storedHeader (parseHeaders (Headers m)) keys ''Content-Type'' = []
               then ''application/json''
               else storedHeader (parseHeaders (Headers m)) keys ''Content-Type''))
       \<and> (200 \<le> statusCodeOf m \<and> statusCodeOf m \<le> 999 \<and>
          statusCodeOf m \<noteq> 204 \<and> statusCodeOf m \<noteq> 304 \<and> meth \<noteq> ''HEAD'' \<and>
          bodyFits (parseHeaders (Headers m)) keys (ResponseBody m) \<longrightarrow>
            rw_body (writeResponse keys (responseWriterFor meth) m) = ResponseBody m)
       \<and> (statusCodeOf m < 100 \<or> 999 < statusCodeOf m \<longrightarrow>
            rw_panic (writeResponse keys (responseWriterFor meth) m) = Some (statusCodeOf m) \<and>
            rw_status (writeResponse keys (responseWriterFor meth) m) = None \<and>
            rw_body (writeResponse keys (responseWriterFor meth) m) = [])
       \<and> (100 \<le> statusCodeOf m \<and> statusCodeOf m \<le> 199 \<and> statusCodeOf m \<noteq> 101 \<longrightarrow>
            rw_interim (writeResponse keys (responseWriterFor meth) m) = [statusCodeOf m] \<and>
            rw_status (writeResponse keys (responseWriterFor meth) m) = Some 200)
       \<and> (statusCodeOf m = 101 \<or> statusCodeOf m = 204 \<or> statusCodeOf m = 304 \<or>
          meth = ''HEAD'' \<or> \<not> bodyFits (parseHeaders (Headers m)) keys (ResponseBody m) \<longrightarrow>
            rw_body (writeResponse keys (responseWriterFor meth) m) = [])"
proof -
  let ?d = "parseHeaders (Headers m)"
  let ?sc = "statusCodeOf m"
  let ?w0 = "responseWriterFor meth"
  let ?W = "writeResponse keys ?w0 m"
  let ?ct = "storedHeader ?d keys ''Content-Type''"
  have sub: "set keys \<subseteq> dom ?d" using assms(2) by simp
  obtain H where form: "?W = Write (WriteHeader (?w0\<lparr>rw_header := H\<rparr>) ?sc) (ResponseBody m)"
    and cl: "header_get H ''Content-Length'' = storedHeader ?d keys ''Content-Length''"
    and ct: "header_get H ''Content-Type'' = (if ?ct = [] then ''application/json'' else ?ct)"
    using writeResponse_form[of keys ?w0 m] sub responseWriterFor_fresh(7)[of meth] by blast
  let ?w2 = "?w0\<lparr>rw_header := H\<rparr>"
  have clean: "rw_panic ?w2 = None" "rw_status ?w2 = None"
    and fresh: "rw_body ?w2 = []" "rw_written ?w2 = 0" "rw_contentLength ?w2 = None"
    and more: "rw_interim ?w2 = []" "rw_head ?w2 = (meth = ''HEAD'')" "rw_header ?w2 = H"
    by (simp_all add: responseWriterFor_fresh)
  have fits: "(header_get H ''Content-Length'' = [] \<or>
                (case parseContentLength (header_get H ''Content-Length'') of
                   None \<Rightarrow> True | Some declared \<Rightarrow> length (ResponseBody m) \<le> declared))
              = bodyFits ?d keys (ResponseBody m)"
    by (simp add: cl bodyFits_def)
  have get: "Header_Get h ''Content-Type'' = header_get h ''Content-Type''" for h
    by (simp add: Header_Get_def header_get_def canonical_Content_Type)
  have hg: "header_get h ''Content-Type'' = header_get h' ''Content-Type''"
    if "h ''Content-Type'' = h' ''Content-Type''" for h h' :: Header
    using that by (simp add: header_get_def)
  \<comment> \<open>a final status\<close>
  have final: "rw_status ?W = Some ?sc \<and> rw_panic ?W = None \<and> rw_interim ?W = [] \<and>
      Header_Get (rw_header ?W) ''Content-Type'' = (if ?ct = [] then ''application/json'' else ?ct) \<and>
      rw_body ?W = (if bodyAllowedForStatus ?sc \<and> meth \<noteq> ''HEAD'' \<and>
                       bodyFits ?d keys (ResponseBody m) then ResponseBody m else [])"
    if fin: "?sc = 101 \<or> 200 \<le> ?sc" "?sc \<le> 999"
  proof -
    note f = Write_after_final[OF clean fin fresh, of "ResponseBody m"]
    have h: "header_get (rw_header ?W) ''Content-Type'' = header_get H ''Content-Type''"
      unfolding form by (rule hg) (simp add: f(4))
    show ?thesis
      unfolding form using f(1,2,3,5) h[unfolded form]
      by (simp add: more fits get ct)
  qed
  \<comment> \<open>a code that is no status code\<close>
  have panic: "rw_panic ?W = Some ?sc \<and> rw_status ?W = None \<and> rw_body ?W = []"
    if bad: "?sc < 100 \<or> 999 < ?sc"
  proof -
    have "?W = ?w2\<lparr>rw_panic := Some ?sc\<rparr>"
      unfolding form by (simp add: WriteHeader_panic[OF clean bad] Write_panicked)
    then show ?thesis by (simp add: responseWriterFor_fresh)
  qed
  \<comment> \<open>an informational code\<close>
  have interim: "rw_interim ?W = [?sc] \<and> rw_status ?W = Some 200 \<and>
      rw_body ?W = (if meth \<noteq> ''HEAD'' \<and> bodyFits ?d keys (ResponseBody m)
                    then ResponseBody m else [])"
    if info: "100 \<le> ?sc" "?sc \<le> 199" "?sc \<noteq> 101"
  proof -
    let ?w3 = "?w2\<lparr>rw_interim := [?sc]\<rparr>"
    have w3: "WriteHeader ?w2 ?sc = ?w3"
      by (simp add: WriteHeader_interim[OF clean info] more)
    have clean3: "rw_panic ?w3 = None" "rw_status ?w3 = None"
      and fresh3: "rw_body ?w3 = []" "rw_written ?w3 = 0" "rw_contentLength ?w3 = None"
      by (simp_all add: responseWriterFor_fresh)
    have fin: "(200::int) = 101 \<or> 200 \<le> (200::int)" "(200::int) \<le> 999" by simp_all
    note f = Write_after_final[OF clean3 fin fresh3, of "ResponseBody m"]
    have "?W = Write (WriteHeader ?w3 200) (ResponseBody m)"
      unfolding form w3 by (rule Write_unfixed[OF clean3])
    then show ?thesis
      using f(1,3,5) by (simp add: responseWriterFor_fresh fits bodyAllowedForStatus_def)
  qed
  have c1: "200 \<le> ?sc \<and> ?sc \<le> 999 \<longrightarrow>
            rw_status ?W = Some ?sc \<and> rw_panic ?W = None \<and> rw_interim ?W = [] \<and>
            Header_Get (rw_header ?W) ''Content-Type'' =
              (if ?ct = [] then ''application/json'' else ?ct)"
    using final by simp
  have c2: "200 \<le> ?sc \<and> ?sc \<le> 999 \<and> ?sc \<noteq> 204 \<and> ?sc \<noteq> 304 \<and> meth \<noteq> ''HEAD'' \<and>
          bodyFits ?d keys (ResponseBody m) \<longrightarrow> rw_body ?W = ResponseBody m"
    using final by (simp add: bodyAllowedForStatus_def)
  have c3: "?sc < 100 \<or> 999 < ?sc \<longrightarrow>
            rw_panic ?W = Some ?sc \<and> rw_status ?W = None \<and> rw_body ?W = []"
    using panic by simp
  have c4: "100 \<le> ?sc \<and> ?sc \<le> 199 \<and> ?sc \<noteq> 101 \<longrightarrow>
            rw_interim ?W = [?sc] \<and> rw_status ?W = Some 200"
    using interim by simp
  have c5: "?sc = 101 \<or> ?sc = 204 \<or> ?sc = 304 \<or> meth = ''HEAD'' \<or>
          \<not> bodyFits ?d keys (ResponseBody m) \<longrightarrow> rw_body ?W = []"
  proof -
    consider (p) "?sc < 100 \<or> 999 < ?sc" | (i) "100 \<le> ?sc" "?sc \<le> 199" "?sc \<noteq> 101"
      | (f) "?sc = 101 \<or> 200 \<le> ?sc" "?sc \<le> 999"
      by linarith
    then show ?thesis
    proof cases
      case p
      then show ?thesis using panic by simp
    next
      case i
      then show ?thesis using interim[OF i] by auto
    next
      case f
      then show ?thesis using final[OF f] by (auto simp: bodyAllowedForStatus_def)
    qed
  qed
  from c1 c2 c3 c4 c5 show ?thesis by blast
qed

text \<open>
  Witness for C5: stored headers \<open>content-type=text/html;X-A=1\<close> and a zero status,
  for a \<open>GET\<close> request.
\<close>

theorem writeResponse_materializes_witness:
  "distinct [''X-A'', ''content-type'']
 \<and> set [''X-A'', ''content-type''] =
     dom (parseHeaders \<lparr>String = ''content-type=text/html;X-A=1'', Valid = True\<rparr>)
 \<and> statusCodeOf \<lparr>ResponseBody = ''<p>hi</p>'', ResponseStatusCode = 0,
        Headers = \<lparr>String = ''content-type=text/html;X-A=1'', Valid = True\<rparr>\<rparr> = 200
 \<and> bodyFits (parseHeaders \<lparr>String = ''content-type=text/html;X-A=1'', Valid = True\<rparr>)
       [''X-A'', ''content-type''] ''<p>hi</p>''
 \<and> rw_status (writeResponse [''X-A'', ''content-type''] (responseWriterFor ''GET'')
       \<lparr>ResponseBody = ''<p>hi</p>'', ResponseStatusCode = 0,
        Headers = \<lparr>String = ''content-type=text/html;X-A=1'', Valid = True\<rparr>\<rparr>) = Some 200
 \<and> rw_body (writeResponse [''X-A'', ''content-type''] (responseWriterFor ''GET'')
       \<lparr>ResponseBody = ''<p>hi</p>'', ResponseStatusCode = 0,
        Headers = \<lparr>String = ''content-type=text/html;X-A=1'', Valid = True\<rparr>\<rparr>) = ''<p>hi</p>''
 \<and> Header_Get (rw_header (writeResponse [''X-A'', ''content-type''] (responseWriterFor ''GET'')
       \<lparr>ResponseBody = ''<p>hi</p>'', ResponseStatusCode = 0,
        Headers = \<lparr>String = ''content-type=text/html;X-A=1'', Valid = True\<rparr>\<rparr>)) ''Content-Type''
     = ''text/html''"
proof -
  let ?m = "\<lparr>ResponseBody = ''<p>hi</p>'', ResponseStatusCode = 0,
        Headers = \<lparr>String = ''content-type=text/html;X-A=1'', Valid = True\<rparr>\<rparr>"
  let ?ks = "[''X-A'', ''content-type'']"
  have d: "parseHeaders \<lparr>String = ''content-type=text/html;X-A=1'', Valid = True\<rparr> =
      [''content-type'' \<mapsto> ''text/html'', ''X-A'' \<mapsto> ''1'']"
    by (simp add: parseHeaders_def trim_eval)
  have h1: "distinct ?ks" by simp
  have h2: "set ?ks = dom (parseHeaders (Headers ?m))"
    by (auto simp: d)
  have sc: "statusCodeOf ?m = 200" by (simp add: statusCodeOf_def)
  have kt: "headerKeys ''Content-Type'' ?ks = [''content-type'']"
    and kl: "headerKeys ''Content-Length'' ?ks = []"
    by (simp_all add: headerKeys_def canon_eval)
  have ct: "storedHeader (parseHeaders (Headers ?m)) ?ks ''Content-Type'' = ''text/html''"
    by (simp add: storedHeader_def kt d)
  have fits: "bodyFits (parseHeaders (Headers ?m)) ?ks (ResponseBody ?m)"
    by (simp add: bodyFits_def storedHeader_def kl)
  have get: "''GET'' \<noteq> ''HEAD''" by simp
  note t = writeResponse_materializes[OF h1 h2, of "''GET''"]
  from t sc have a: "rw_status (writeResponse ?ks (responseWriterFor ''GET'') ?m) = Some 200"
    by simp
  from t sc ct have b: "Header_Get (rw_header (writeResponse ?ks (responseWriterFor ''GET'') ?m))
      ''Content-Type'' = ''text/html''"
    by simp
  from t sc fits get have c: "rw_body (writeResponse ?ks (responseWriterFor ''GET'') ?m) = ResponseBody ?m"
    by simp
  from h1 h2 sc fits a b c show ?thesis by simp
qed

subsection \<open>C6: 404, 500 and one round trip\<close>

text \<open>
  C6, as stated for every request, fails in its count of round trips: a request whose
  body cannot be read is answered with status 400 before any query is sent.
\<close>

theorem unreadable_body_sends_no_query:
  "issued (proxyHandler (QueryRow users_store) [] newResponseWriter broken_upload) = []
 \<and> rw_status (response (proxyHandler (QueryRow users_store) [] newResponseWriter broken_upload))
     = Some 400"
  by (simp add: proxyHandler_def readRequestBody_def io_ReadAll_def broken_upload_def
      http_Error_400)

text \<open>
  C6, amended. For every request whose body is read without error, the handler sends
  exactly one query; when the store answers \<open>sql.ErrNoRows\<close> the response is
  \<open>http.NotFound\<close>, status 404; for every other error of the store, the expired
  deadline among them, it is the fixed \<open>http.Error\<close> reply with status 500 and the
  body \<open>Internal server error\<close>, the same for every error; nothing is sent twice.
\<close>

theorem proxyHandler_classifies:
  assumes "snd (readRequestBody r) = Inr body"
  shows "\<exists>q args.
           issued (proxyHandler db keys newResponseWriter r) = [(q, args)] \<and>
           (db q args = Inl ErrNoRows \<longrightarrow>
              response (proxyHandler db keys newResponseWriter r) = http_NotFound newResponseWriter) \<and>
           (\<forall>e. db q args = Inl e \<and> e \<noteq> ErrNoRows \<longrightarrow>
              response (proxyHandler db keys newResponseWriter r) =
                http_Error newResponseWriter ''Internal server error'' 500) \<and>
           (db q args = Inl DeadlineExceeded \<longrightarrow>
              rw_status (response (proxyHandler db keys newResponseWriter r)) = Some 500) \<and>
           rw_status (http_NotFound newResponseWriter) = Some 404 \<and>
           rw_status (http_Error newResponseWriter ''Internal server error'' 500) = Some 500 \<and>
           rw_body (http_Error newResponseWriter ''Internal server error'' 500) =
             ''Internal server error'' @ [CHR 0x0A]"
proof -
  let ?qa = "lookupQuery (buildFullPath r) (Method r) (fst (validateAndReturnJSON body))"
  have "issued (proxyHandler db keys newResponseWriter r) = [(fst ?qa, snd ?qa)]"
    by (simp add: proxyHandler_resolve[OF assms] Let_def split: sum.splits)
  moreover have "db (fst ?qa) (snd ?qa) = Inl ErrNoRows \<longrightarrow>
      response (proxyHandler db keys newResponseWriter r) = http_NotFound newResponseWriter"
    by (simp add: proxyHandler_resolve[OF assms] Let_def)
  moreover have "\<forall>e. db (fst ?qa) (snd ?qa) = Inl e \<and> e \<noteq> ErrNoRows \<longrightarrow>
      response (proxyHandler db keys newResponseWriter r) =
        http_Error newResponseWriter ''Internal server error'' 500"
    by (simp add: proxyHandler_resolve[OF assms] Let_def)
  moreover have "db (fst ?qa) (snd ?qa) = Inl DeadlineExceeded \<longrightarrow>
      rw_status (response (proxyHandler db keys newResponseWriter r)) = Some 500"
    by (simp add: proxyHandler_resolve[OF assms] Let_def http_Error_500)
  moreover have "rw_status (http_NotFound newResponseWriter) = Some 404"
    by (simp add: http_NotFound_def http_Error_404)
  ultimately show ?thesis
    using http_Error_500[of "''Internal server error''"] by blast
qed

text \<open>
  Witness for C6: the example store without a matching row (404), and the same store
  failing with the expired deadline (500).
\<close>

theorem proxyHandler_classifies_witness:
  "snd (readRequestBody (post_users ''[1, 2]'')) = Inr ''[1, 2]''
 \<and> issued (proxyHandler (QueryRow users_store) [] newResponseWriter (post_users ''[1, 2]'')) =
     [(SelectBodyHash, [''/api/users'', ''POST'', ''[1, 2]''])]
 \<and> rw_status (response (proxyHandler (QueryRow users_store) [] newResponseWriter
       (post_users ''[1, 2]''))) = Some 404
 \<and> rw_status (response (proxyHandler (QueryRow (users_store\<lparr>fault := Some DeadlineExceeded\<rparr>)) []
       newResponseWriter (post_users ''[1, 2]''))) = Some 500
 \<and> rw_body (response (proxyHandler (QueryRow (users_store\<lparr>fault := Some DeadlineExceeded\<rparr>)) []
       newResponseWriter (post_users ''[1, 2]''))) = ''Internal server error'' @ [CHR 0x0A]"
proof -
  let ?r = "post_users ''[1, 2]''"
  let ?down = "users_store\<lparr>fault := Some DeadlineExceeded\<rparr>"
  have h: "snd (readRequestBody ?r) = Inr ''[1, 2]''" by (simp add: post_users_read)
  have ok: "json_Unmarshal_ok ''[1, 2]''" by (simp add: json_Unmarshal_ok_def scan_eval
        float64Overflow_def digitsVal_def digitVal_def float64Limit_def pow10_def)
  have v: "validateAndReturnJSON ''[1, 2]'' = (''[1, 2]'', None)"
    using ok by (simp add: validateAndReturnJSON_def)
  have i: "\<And>d. issued (proxyHandler d [] newResponseWriter ?r) =
      [(SelectBodyHash, [''/api/users'', ''POST'', ''[1, 2]''])]"
    by (simp add: proxyHandler_resolve[OF h] v lookupQuery_def post_users_key Let_def
        split: sum.splits)
  have q1: "QueryRow users_store SelectBodyHash [''/api/users'', ''POST'', ''[1, 2]''] = Inl ErrNoRows"
    by (simp add: QueryRow_def scenario_eval)
  have q2: "QueryRow ?down SelectBodyHash [''/api/users'', ''POST'', ''[1, 2]''] = Inl DeadlineExceeded"
    by (simp add: QueryRow_def scenario_eval)
  from proxyHandler_classifies[OF h, of "QueryRow users_store" "[]"] i[of "QueryRow users_store"] q1
  have a: "rw_status (response (proxyHandler (QueryRow users_store) [] newResponseWriter ?r)) = Some 404"
    by auto
  from proxyHandler_classifies[OF h, of "QueryRow ?down" "[]"] i[of "QueryRow ?down"] q2
  have b: "response (proxyHandler (QueryRow ?down) [] newResponseWriter ?r) =
      http_Error newResponseWriter ''Internal server error'' 500"
    by auto
  show ?thesis
    using h i[of "QueryRow users_store"] a b by (simp add: http_Error_500)
qed

subsection \<open>C7: the full path\<close>

text \<open>
  C7. For every request, the full path is the request path, followed by \<open>?\<close> and the raw
  query string if and only if that is not empty; nothing is reordered or decoded, so
  two requests with the same path and different raw queries have different keys, and a
  record that is returned has exactly the request's full path as its \<open>path\<close>. The two
  registered paths \<open>/api/users?active=true&page=1\<close> and
  \<open>/api/users?page=1&active=true\<close> are different keys, and each request gets its own
  record.
\<close>

theorem buildFullPath_literal:
  "buildFullPath r =
     Path (URL r) @ (if RawQuery (URL r) = [] then [] else CHR ''?'' # RawQuery (URL r))
 \<and> (Path (URL r) = Path (URL r') \<and> RawQuery (URL r) \<noteq> RawQuery (URL r') \<longrightarrow>
       buildFullPath r \<noteq> buildFullPath r')
 \<and> (\<forall>resp. QueryRow st q (buildFullPath r # Method r # rest) = Inr resp \<longrightarrow>
       (\<exists>rw \<in> set (rows st). row_path rw = buildFullPath r \<and> row_method rw = Method r \<and>
                                Scan rw = Inr resp))
 \<and> buildFullPath (get_users ''active=true&page=1'') = ''/api/users?active=true&page=1''
 \<and> buildFullPath (get_users ''page=1&active=true'') = ''/api/users?page=1&active=true''
 \<and> response (proxyHandler (QueryRow query_store) [] newResponseWriter (get_users ''active=true&page=1''))
     = writeResponse [] newResponseWriter \<lparr>ResponseBody = ''[1]'', ResponseStatusCode = 200,
         Headers = \<lparr>String = [], Valid = False\<rparr>\<rparr>
 \<and> response (proxyHandler (QueryRow query_store) [] newResponseWriter (get_users ''page=1&active=true''))
     = writeResponse [] newResponseWriter \<lparr>ResponseBody = ''[2]'', ResponseStatusCode = 200,
         Headers = \<lparr>String = [], Valid = False\<rparr>\<rparr>"
proof -
  have a: "buildFullPath r =
     Path (URL r) @ (if RawQuery (URL r) = [] then [] else CHR ''?'' # RawQuery (URL r))" for r
    by (simp add: buildFullPath_def)
  have b: "Path (URL r) = Path (URL r') \<and> RawQuery (URL r) \<noteq> RawQuery (URL r') \<longrightarrow>
       buildFullPath r \<noteq> buildFullPath r'"
    by (auto simp: a)
  have c: "\<forall>resp. QueryRow st q (buildFullPath r # Method r # rest) = Inr resp \<longrightarrow>
       (\<exists>rw \<in> set (rows st). row_path rw = buildFullPath r \<and> row_method rw = Method r \<and>
                                Scan rw = Inr resp)"
  proof (intro allI impI)
    fix resp assume "QueryRow st q (buildFullPath r # Method r # rest) = Inr resp"
    then obtain rw rs where f: "filter (selects st q (buildFullPath r # Method r # rest)) (rows st) = rw # rs"
      and s: "Scan rw = Inr resp"
      by (auto simp: QueryRow_def split: option.splits list.splits)
    from f have "rw \<in> set (filter (selects st q (buildFullPath r # Method r # rest)) (rows st))" by simp
    then have m: "rw \<in> set (rows st)" and sel: "selects st q (buildFullPath r # Method r # rest) rw"
      by simp_all
    from sel have "row_path rw = buildFullPath r \<and> row_method rw = Method r"
      by (induction st q "buildFullPath r # Method r # rest" rw rule: selects.induct) auto
    with m s show "\<exists>rw \<in> set (rows st). row_path rw = buildFullPath r \<and> row_method rw = Method r \<and>
                                Scan rw = Inr resp" by blast
  qed
  have k1: "buildFullPath (get_users ''active=true&page=1'') = ''/api/users?active=true&page=1''"
    and k2: "buildFullPath (get_users ''page=1&active=true'') = ''/api/users?page=1&active=true''"
    by (simp_all add: buildFullPath_def get_users_def)
  have m: "Method (get_users x) = ''GET''" for x by (simp add: get_users_def)
  have rb: "snd (readRequestBody (get_users x)) = Inr []" for x
    by (simp add: readRequestBody_def get_users_def)
  have v0: "validateAndReturnJSON [] = ([], None)" by (simp add: validateAndReturnJSON_def)
  have q1: "QueryRow query_store SelectNullBody [''/api/users?active=true&page=1'', ''GET''] =
      Inr \<lparr>ResponseBody = ''[1]'', ResponseStatusCode = 200, Headers = \<lparr>String = [], Valid = False\<rparr>\<rparr>"
    by (simp add: QueryRow_def Scan_def scenario_eval)
  have q2: "QueryRow query_store SelectNullBody [''/api/users?page=1&active=true'', ''GET''] =
      Inr \<lparr>ResponseBody = ''[2]'', ResponseStatusCode = 200, Headers = \<lparr>String = [], Valid = False\<rparr>\<rparr>"
    by (simp add: QueryRow_def Scan_def scenario_eval)
  have p1: "response (proxyHandler (QueryRow query_store) [] newResponseWriter (get_users ''active=true&page=1''))
     = writeResponse [] newResponseWriter \<lparr>ResponseBody = ''[1]'', ResponseStatusCode = 200,
         Headers = \<lparr>String = [], Valid = False\<rparr>\<rparr>"
    by (simp add: proxyHandler_resolve[OF rb] v0 lookupQuery_def k1 m q1)
  have p2: "response (proxyHandler (QueryRow query_store) [] newResponseWriter (get_users ''page=1&active=true''))
     = writeResponse [] newResponseWriter \<lparr>ResponseBody = ''[2]'', ResponseStatusCode = 200,
         Headers = \<lparr>String = [], Valid = False\<rparr>\<rparr>"
    by (simp add: proxyHandler_resolve[OF rb] v0 lookupQuery_def k2 m q2)
  show ?thesis using a[of r] b c k1 k2 p1 p2 by blast
qed

text \<open>Witness for C7: the two requests of the scenario.\<close>

theorem buildFullPath_literal_witness:
  "Path (URL (get_users ''active=true&page=1'')) = Path (URL (get_users ''page=1&active=true''))
 \<and> RawQuery (URL (get_users ''active=true&page=1'')) \<noteq> RawQuery (URL (get_users ''page=1&active=true''))
 \<and> buildFullPath (get_users ''active=true&page=1'') \<noteq> buildFullPath (get_users ''page=1&active=true'')
 \<and> QueryRow query_store SelectNullBody
       (buildFullPath (get_users ''page=1&active=true'') # Method (get_users ''page=1&active=true'') # [])
     = Scan page_active_record
 \<and> Scan active_page_record \<noteq> Scan page_active_record"
proof -
  let ?a = "get_users ''active=true&page=1''"
  let ?b = "get_users ''page=1&active=true''"
  have h1: "Path (URL ?a) = Path (URL ?b)" by (simp add: get_users_def)
  have h2: "RawQuery (URL ?a) \<noteq> RawQuery (URL ?b)" by (simp add: get_users_def)
  note t = buildFullPath_literal[of ?a ?b query_store SelectNullBody "[]"]
  from t h1 h2 have ne: "buildFullPath ?a \<noteq> buildFullPath ?b" by blast
  have q: "QueryRow query_store SelectNullBody (buildFullPath ?b # Method ?b # []) = Scan page_active_record"
    by (simp add: QueryRow_def scenario_eval buildFullPath_def)
  have d: "Scan active_page_record \<noteq> Scan page_active_record"
    by (simp add: Scan_def scenario_eval)
  from h1 h2 ne q d show ?thesis by blast
qed

subsection \<open>C8: the body stays readable\<close>

text \<open>
  C8. For every request with a body that reads without error, \<open>readRequestBody\<close>
  returns all of its bytes and leaves in the request a body that delivers the same
  bytes again: reading the returned request once more gives the same bytes and the same
  request. (The reader that was drained would deliver nothing.)
\<close>

theorem readRequestBody_restores_body:
  assumes "Body r = Some rd" and "failure rd = None"
  shows "snd (readRequestBody r) = Inr (pending rd)
       \<and> Body (fst (readRequestBody r)) = Some (bytes_NewBuffer (pending rd))
       \<and> io_ReadAll (bytes_NewBuffer (pending rd)) = (bytes_NewBuffer [], pending rd, None)
       \<and> readRequestBody (fst (readRequestBody r)) = (fst (readRequestBody r), Inr (pending rd))
       \<and> URL (fst (readRequestBody r)) = URL r \<and> Method (fst (readRequestBody r)) = Method r
       \<and> fst (snd (io_ReadAll (fst (io_ReadAll rd)))) = []"
proof -
  let ?r' = "r\<lparr>Body := Some (bytes_NewBuffer (pending rd))\<rparr>"
  have first: "readRequestBody r = (?r', Inr (pending rd))"
    by (rule readRequestBody_readable[OF assms])
  have b': "Body ?r' = Some (bytes_NewBuffer (pending rd))" by simp
  have f': "failure (bytes_NewBuffer (pending rd)) = None" by (simp add: bytes_NewBuffer_def)
  have p': "pending (bytes_NewBuffer (pending rd)) = pending rd" by (simp add: bytes_NewBuffer_def)
  have again: "readRequestBody ?r' = (?r', Inr (pending rd))"
    using readRequestBody_readable[OF b' f'] by (simp add: p')
  have buf: "io_ReadAll (bytes_NewBuffer (pending rd)) = (bytes_NewBuffer [], pending rd, None)"
    by (simp add: io_ReadAll_def bytes_NewBuffer_def)
  have drained: "fst (snd (io_ReadAll (fst (io_ReadAll rd)))) = []"
    by (simp add: io_ReadAll_def)
  show ?thesis
    by (simp add: first again buf drained)
qed

text \<open>Witness for C8: a request with the body \<open>{"a":1}\<close>.\<close>

theorem readRequestBody_restores_body_witness:
  "Body (post_users ''{\"a\":1}'') = Some (bytes_NewBuffer ''{\"a\":1}'')
 \<and> failure (bytes_NewBuffer ''{\"a\":1}'') = None
 \<and> snd (readRequestBody (post_users ''{\"a\":1}'')) = Inr ''{\"a\":1}''
 \<and> readRequestBody (fst (readRequestBody (post_users ''{\"a\":1}''))) =
       (fst (readRequestBody (post_users ''{\"a\":1}'')), Inr ''{\"a\":1}'')"
proof -
  let ?b = "''{\"a\":1}''"
  have h1: "Body (post_users ?b) = Some (bytes_NewBuffer ?b)" by (simp add: post_users_def)
  have h2: "failure (bytes_NewBuffer ?b) = None" by (simp add: bytes_NewBuffer_def)
  have p: "pending (bytes_NewBuffer ?b) = ?b" by (simp add: bytes_NewBuffer_def)
  from readRequestBody_restores_body[OF h1 h2] h1 h2 show ?thesis unfolding p by blast
qed

subsection \<open>C9: a failed initialization is reported once\<close>

text \<open>
  C9. If the first call of \<open>initDB\<close> fails (\<open>sql.Open\<close> or \<open>db.Ping\<close> returned an
  error), then no usable pool is left, and every later call returns \<open>nil\<close> without
  trying again, whatever the environment has become.
\<close>

theorem initDB_failure_seen_once:
  assumes "\<not> var_once g" and "initDB env g = (g', Some e)"
  shows "(open_error env = Some e \<or> (open_error env = None \<and> ping_error env = Some e))
       \<and> var_once g' \<and> \<not> usable g'
       \<and> initDB env' g' = (g', None)
       \<and> initDB_calls envs g' = replicate (length envs) None"
proof -
  from assms have o: "var_once g'" and u: "\<not> usable g'"
    and c: "open_error env = Some e \<or> (open_error env = None \<and> ping_error env = Some e)"
    by (auto simp: initDB_def usable_def split: option.splits if_splits)
  from o have "initDB env' g' = (g', None)" by (rule initDB_after_once)
  moreover from o have "initDB_calls envs g' = replicate (length envs) None"
    by (rule initDB_calls_after_once)
  ultimately show ?thesis using o u c by blast
qed

text \<open>Witness for C9: the first call meets a refused connection, the later ones none.\<close>

theorem initDB_failure_seen_once_witness:
  "\<not> var_once \<lparr>var_db = None, var_once = False\<rparr>
 \<and> initDB \<lparr>open_error = None, ping_error = Some ''connection refused''\<rparr>
       \<lparr>var_db = None, var_once = False\<rparr> =
     (\<lparr>var_db = Some (sql_Open\<lparr>closed := True\<rparr>), var_once = True\<rparr>, Some ''connection refused'')
 \<and> \<not> usable \<lparr>var_db = Some (sql_Open\<lparr>closed := True\<rparr>), var_once = True\<rparr>
 \<and> initDB \<lparr>open_error = None, ping_error = None\<rparr>
       \<lparr>var_db = Some (sql_Open\<lparr>closed := True\<rparr>), var_once = True\<rparr> =
     (\<lparr>var_db = Some (sql_Open\<lparr>closed := True\<rparr>), var_once = True\<rparr>, None)
 \<and> initDB_calls [\<lparr>open_error = None, ping_error = None\<rparr>, \<lparr>open_error = None, ping_error = None\<rparr>]
       \<lparr>var_db = Some (sql_Open\<lparr>closed := True\<rparr>), var_once = True\<rparr> = [None, None]"
proof -
  let ?g = "\<lparr>var_db = None, var_once = False\<rparr>"
  let ?g' = "\<lparr>var_db = Some (sql_Open\<lparr>closed := True\<rparr>), var_once = True\<rparr>"
  let ?up = "\<lparr>open_error = None, ping_error = None\<rparr>"
  have h1: "\<not> var_once ?g" by simp
  have h2: "initDB \<lparr>open_error = None, ping_error = Some ''connection refused''\<rparr> ?g =
      (?g', Some ''connection refused'')"
    by (simp add: initDB_def)
  from initDB_failure_seen_once[OF h1 h2, of ?up "[?up, ?up]"] h1 h2
  show ?thesis by simp
qed

subsection \<open>C10: which bodies count as present\<close>

text \<open>
  C10, as stated, fails: \<open>1e400\<close> is syntactically valid JSON, and the validator returns
  the empty string for it, so the request goes to the NULL-body query.
\<close>

theorem overflow_number_routed_to_null_query:
  "checkValid ''1e400''
 \<and> validateAndReturnJSON ''1e400'' = ([], None)
 \<and> issued (proxyHandler (QueryRow users_store) [''Content-Type''] newResponseWriter
       (post_users ''1e400'')) = [(SelectNullBody, [''/api/users'', ''POST''])]"
proof -
  have v: "validateAndReturnJSON ''1e400'' = ([], None)"
    by (simp add: validateAndReturnJSON_def json_Unmarshal_1e400)
  have rb: "snd (readRequestBody (post_users ''1e400'')) = Inr ''1e400''"
    by (simp add: post_users_read)
  have "issued (proxyHandler (QueryRow users_store) [''Content-Type''] newResponseWriter
       (post_users ''1e400'')) = [(SelectNullBody, [''/api/users'', ''POST''])]"
    by (simp add: proxyHandler_resolve[OF rb] v lookupQuery_def post_users_key Let_def
        split: sum.splits)
  with v checkValid_1e400 show ?thesis by blast
qed

text \<open>
  C10, amended. A body that \<open>json.Unmarshal\<close> accepts (syntactically valid JSON whose
  numbers fit a \<open>float64\<close>), the bare literal \<open>null\<close> included, is a present body and
  goes to the hash query; a body of white space only fails the validation, is absent
  and goes to the NULL-body query. The test is on the validated string: both requests
  have a body stream.
\<close>

theorem body_presence_follows_validation:
  "(json_Unmarshal_ok b \<longrightarrow>
      validateAndReturnJSON b = (b, None) \<and>
      getMockResponse dbq p m (fst (validateAndReturnJSON b)) =
        ([(SelectBodyHash, [p, m, b])], dbq SelectBodyHash [p, m, b]))
 \<and> json_Unmarshal_ok ''null''
 \<and> (list_all asciiSpace b \<longrightarrow>
      validateAndReturnJSON b = ([], None) \<and>
      getMockResponse dbq p m (fst (validateAndReturnJSON b)) =
        ([(SelectNullBody, [p, m])], dbq SelectNullBody [p, m]))
 \<and> (Body r = Some rd \<and> failure rd = None \<and> json_Unmarshal_ok (pending rd) \<longrightarrow>
      issued (proxyHandler dbq keys w r) =
        [(SelectBodyHash, [buildFullPath r, Method r, pending rd])])
 \<and> (Body r = Some rd \<and> failure rd = None \<and> list_all asciiSpace (pending rd) \<longrightarrow>
      issued (proxyHandler dbq keys w r) = [(SelectNullBody, [buildFullPath r, Method r])])"
proof -
  have ok: "validateAndReturnJSON x = (x, None) \<and> x \<noteq> []" if "json_Unmarshal_ok x" for x
  proof -
    from that checkValid_Nil have "x \<noteq> []" by (auto simp: json_Unmarshal_ok_def)
    with that show ?thesis by (simp add: validateAndReturnJSON_def)
  qed
  have sp: "validateAndReturnJSON x = ([], None)" if "list_all asciiSpace x" for x
    using checkValid_spaces[OF that]
    by (simp add: validateAndReturnJSON_def json_Unmarshal_ok_def)
  have a: "json_Unmarshal_ok b \<longrightarrow>
      validateAndReturnJSON b = (b, None) \<and>
      getMockResponse dbq p m (fst (validateAndReturnJSON b)) =
        ([(SelectBodyHash, [p, m, b])], dbq SelectBodyHash [p, m, b])"
    using ok[of b] by (auto simp: getMockResponse_def)
  have c: "list_all asciiSpace b \<longrightarrow>
      validateAndReturnJSON b = ([], None) \<and>
      getMockResponse dbq p m (fst (validateAndReturnJSON b)) =
        ([(SelectNullBody, [p, m])], dbq SelectNullBody [p, m])"
    using sp[of b] by (auto simp: getMockResponse_def)
  have d: "Body r = Some rd \<and> failure rd = None \<and> json_Unmarshal_ok (pending rd) \<longrightarrow>
      issued (proxyHandler dbq keys w r) =
        [(SelectBodyHash, [buildFullPath r, Method r, pending rd])]"
  proof (intro impI, elim conjE)
    assume h: "Body r = Some rd" "failure rd = None" and j: "json_Unmarshal_ok (pending rd)"
    have rb: "snd (readRequestBody r) = Inr (pending rd)"
      by (simp add: readRequestBody_readable[OF h])
    from ok[OF j] show "issued (proxyHandler dbq keys w r) =
        [(SelectBodyHash, [buildFullPath r, Method r, pending rd])]"
      by (simp add: proxyHandler_issued[OF rb] lookupQuery_def)
  qed
  have e: "Body r = Some rd \<and> failure rd = None \<and> list_all asciiSpace (pending rd) \<longrightarrow>
      issued (proxyHandler dbq keys w r) = [(SelectNullBody, [buildFullPath r, Method r])]"
  proof (intro impI, elim conjE)
    assume h: "Body r = Some rd" "failure rd = None" and j: "list_all asciiSpace (pending rd)"
    have rb: "snd (readRequestBody r) = Inr (pending rd)"
      by (simp add: readRequestBody_readable[OF h])
    from sp[OF j] show "issued (proxyHandler dbq keys w r) =
        [(SelectNullBody, [buildFullPath r, Method r])]"
      by (simp add: proxyHandler_issued[OF rb] lookupQuery_def)
  qed
  from a json_Unmarshal_null c d e show ?thesis by blast
qed

text \<open>Witness for C10: the bodies \<open>null\<close> and space, line feed, tab.\<close>

theorem body_presence_follows_validation_witness:
  "json_Unmarshal_ok ''null''
 \<and> validateAndReturnJSON ''null'' = (''null'', None)
 \<and> issued (proxyHandler (QueryRow users_store) [] newResponseWriter (post_users ''null'')) =
     [(SelectBodyHash, [''/api/users'', ''POST'', ''null''])]
 \<and> list_all asciiSpace [CHR 0x20, CHR 0x0A, CHR 0x09]
 \<and> validateAndReturnJSON [CHR 0x20, CHR 0x0A, CHR 0x09] = ([], None)
 \<and> issued (proxyHandler (QueryRow users_store) [] newResponseWriter
       (post_users [CHR 0x20, CHR 0x0A, CHR 0x09])) = [(SelectNullBody, [''/api/users'', ''POST''])]"
proof -
  let ?ws = "[CHR 0x20, CHR 0x0A, CHR 0x09]"
  have sp: "list_all asciiSpace ?ws" by (simp add: asciiSpace_def)
  have bn: "Body (post_users x) = Some (bytes_NewBuffer x) \<and> failure (bytes_NewBuffer x) = None"
    for x by (simp add: post_users_def bytes_NewBuffer_def)
  have pn: "pending (bytes_NewBuffer x) = x" for x by (simp add: bytes_NewBuffer_def)
  note n = body_presence_follows_validation[of "''null''" "QueryRow users_store" "''/api/users''"
      "''POST''" "post_users ''null''" "bytes_NewBuffer ''null''" "[]" newResponseWriter]
  note s = body_presence_follows_validation[of ?ws "QueryRow users_store" "''/api/users''"
      "''POST''" "post_users ?ws" "bytes_NewBuffer ?ws" "[]" newResponseWriter]
  from n have n1: "json_Unmarshal_ok ''null''" by blast
  with n have n2: "validateAndReturnJSON ''null'' = (''null'', None)" by blast
  from n n1 bn[of "''null''"] have n3: "issued (proxyHandler (QueryRow users_store) [] newResponseWriter
      (post_users ''null'')) = [(SelectBodyHash, [''/api/users'', ''POST'', ''null''])]"
    by (simp add: pn post_users_key)
  from s sp have s2: "validateAndReturnJSON ?ws = ([], None)" by blast
  from s sp bn[of ?ws] have s3: "issued (proxyHandler (QueryRow users_store) [] newResponseWriter
      (post_users ?ws)) = [(SelectNullBody, [''/api/users'', ''POST''])]"
    by (simp add: pn post_users_key)
  from n1 n2 n3 sp s2 s3 show ?thesis by blast
qed

end
